theory Spec2Isabelle
  imports Complex_Main
begin

section \<open>Data model (src/lib/types.ts)\<close>

text \<open>
  The string-literal unions of types.ts are datatypes. The union
  \<^verbatim>\<open>"low" | "medium" | "high"\<close> is one and the same TypeScript type wherever it is
  written (BudgetLevel, ConfidenceLevel, a risk severity, a cost-of-living tier, ...),
  so it is one datatype here, with a synonym for each name the source gives it.
  Where two unions share a literal, the constructors of the second are renamed: the
  tuition tiers are \<open>TierFree\<close>, \<open>TierLow\<close>, \<open>TierMedium\<close>, \<open>TierHigh\<close>, and the visa
  difficulty "medium" is \<open>Moderate\<close>. A field name that several interfaces use
  carries the initial of its interface (\<open>id_U\<close>, \<open>country_S\<close>, \<open>name_C\<close>, ...).
\<close>

datatype SituationType = DontKnow | StudyAbroad | UnsureChoice | SomethingWrong | ExploreSafely

datatype Level = Low | Medium | High

type_synonym BudgetLevel = Level
type_synonym ConfidenceLevel = Level

datatype FearType = Money | Visa | Failure | Time

datatype EducationStage = HighSchool | Bachelors | Masters | Phd | Bootcamp | Working

datatype TeachingStyle = LectureHeavy | ProjectBased | ResearchFocused | Mixed

datatype Proficiency = Basic | Intermediate | Advanced

datatype TuitionTier = TierFree | TierLow | TierMedium | TierHigh

datatype Difficulty = Easy | Moderate | Hard

datatype Coverage = Full | Partial

datatype PathType = UniversityPath | BootcampPath | InternshipPath | AlternativePath

datatype EventType = Decision | Deadline | Milestone | Risk | Fallback

text \<open>
  A \<^verbatim>\<open>Date\<close> is its time value: milliseconds since the epoch. A \<^verbatim>\<open>number\<close> field of a
  catalog record is an integer (ranks, scales, percentages, amounts, as in every
  record of the repository; a grade point average alone is a real), and the
  arithmetic on them is exact: the rounding of IEEE doubles is not modelled.

  The type StudentProfile declares budgetLevel, mainFear and confidenceLevel as
  required, but the type is erased at run time and the route handler passes the
  parsed request body to the engine unchecked. The three fields are therefore
  optional here: \<open>None\<close> is a property that is absent (JavaScript's \<^verbatim>\<open>undefined\<close>).
\<close>

record StudentProfile =
  id_P :: string
  situation :: SituationType
  currentCountry :: string
  targetCountry :: "string option"
  educationStage :: EducationStage
  budgetLevel :: "BudgetLevel option"
  mainFear :: "FearType option"
  confidenceLevel :: "ConfidenceLevel option"
  createdAt :: int

record LanguageRequirements =
  primary :: string
  alternatives :: "string list option"
  proficiencyRequired :: Proficiency

record Tuition =
  currency :: string
  annualCost :: int
  tier :: TuitionTier

record DataSource =
  tuition_src :: string
  ranking_src :: string
  workload_src :: string
  visa_src :: string
  acceptance_src :: string

record University =
  id_U :: string
  name_U :: string
  country_U :: string
  city :: string
  ranking :: int
  teachingStyle :: TeachingStyle
  workloadIntensity :: int
  languageRequirements :: LanguageRequirements
  tuition :: Tuition
  visaDifficulty :: Difficulty
  internationalStudentSupport :: int
  acceptanceRate :: int
  website_U :: string
  imageUrl :: "string option"
  dataSource :: "DataSource option"
  scrapedAt_U :: int

record Eligibility =
  countries :: "string list"
  minGPA :: "real option"
  educationStage_E :: "EducationStage list"
  ageLimit :: "int option"
  workExperienceRequired :: "bool option"

record Amount =
  currency_A :: string
  value_A :: int
  coverage :: Coverage

record Scholarship =
  id_S :: string
  name_S :: string
  provider :: string
  country_S :: string
  eligibility :: Eligibility
  amount :: Amount
  deadline :: int
  competitiveness :: Level
  applicationComplexity :: int
  website_S :: string
  scrapedAt_S :: int

record CostOfLiving =
  tier_C :: Level
  monthlyAverage :: int
  currency_C :: string

record VisaProcessing =
  difficulty :: Difficulty
  averageProcessingDays :: int
  successRate :: int
  requirements :: "string list"

record PostStudyWork =
  allowed :: bool
  duration :: "string option"
  restrictions :: "string option"

record Country =
  code :: string
  name_C :: string
  costOfLiving :: CostOfLiving
  languageBarrier :: int
  cultureShockRisk :: int
  visaProcessing :: VisaProcessing
  postStudyWork :: PostStudyWork
  safetyRating :: int
  scrapedAt_C :: int

text \<open>
  A JavaScript number that can be NaN. Only the workload score and the overall score
  can: they are computed from \<^verbatim>\<open>confidenceMap[profile.confidenceLevel]\<close>, which is
  \<^verbatim>\<open>undefined\<close> for a profile without the field.
\<close>

datatype number = NaN | Num int

record Breakdown =
  teaching :: int
  workload :: number
  language :: int
  cost :: int
  visa :: int
  support :: int

record FitScore =
  overall :: number
  breakdown :: Breakdown

record RiskEntry =
  severity :: Level
  likelihood :: int
  description_R :: string
  mitigation :: "string list"

record RiskAssessment =
  financial :: RiskEntry
  visa_R :: RiskEntry
  academic :: RiskEntry
  time :: RiskEntry

record TimelineEvent =
  id_Ev :: string
  date :: int
  title :: string
  description_Ev :: string
  type_Ev :: EventType
  importance :: Level
  completed :: "bool option"

record Path =
  id_Path :: string
  type_Path :: PathType
  name_Path :: string
  description_Path :: string
  fitScore_Path :: FitScore
  risks :: RiskAssessment
  notForYouIf :: "string list"
  details :: University
  scholarships :: "Scholarship list"
  timeline :: "TimelineEvent list"

text \<open>
  The engine imports the three catalog arrays from src/lib/data/seed-data.ts. They
  are a parameter of the model: every property holds for any catalog.
\<close>

record Catalog =
  UNIVERSITIES :: "University list"
  SCHOLARSHIPS :: "Scholarship list"
  COUNTRIES :: "Country list"

text \<open>The one exception the engine can raise.\<close>

datatype error = TypeError

section \<open>JavaScript primitives the engine uses\<close>

text \<open>
  \<^verbatim>\<open>Math.round\<close> rounds to the nearest integer, a half towards plus infinity.
\<close>

definition Math_round :: "real \<Rightarrow> int" where
  "Math_round x = \<lfloor>x + 1 / 2\<rfloor>"

text \<open>
  A template literal renders an integer number in decimal (below \<open>10^21\<close> in
  magnitude, where JavaScript switches to exponent notation).
\<close>

definition digitChar :: "nat \<Rightarrow> char" where
  "digitChar d = ''0123456789'' ! d"

fun digitsOf :: "nat \<Rightarrow> string" where
  "digitsOf n = (if n < 10 then [digitChar n] else digitsOf (n div 10) @ [digitChar (n mod 10)])"

declare digitsOf.simps [simp del]

definition numberToString :: "int \<Rightarrow> string" where
  "numberToString i = (if i < 0 then CHR ''-'' # digitsOf (nat (- i)) else digitsOf (nat i))"

text \<open>The strings of the enumerations that the engine interpolates.\<close>

fun levelToString :: "Level option \<Rightarrow> string" where
  "levelToString None = ''undefined''"
| "levelToString (Some Low) = ''low''"
| "levelToString (Some Medium) = ''medium''"
| "levelToString (Some High) = ''high''"

fun teachingStyleToString :: "TeachingStyle \<Rightarrow> string" where
  "teachingStyleToString LectureHeavy = ''lecture-heavy''"
| "teachingStyleToString ProjectBased = ''project-based''"
| "teachingStyleToString ResearchFocused = ''research-focused''"
| "teachingStyleToString Mixed = ''mixed''"

fun difficultyToString :: "Difficulty \<Rightarrow> string" where
  "difficultyToString Easy = ''easy''"
| "difficultyToString Moderate = ''medium''"
| "difficultyToString Hard = ''hard''"

text \<open>
  \<^verbatim>\<open>alternatives?.includes("English")\<close> in a condition: an absent list is
  \<^verbatim>\<open>undefined\<close>, which is falsy.
\<close>

definition alternativesInclude :: "University \<Rightarrow> string \<Rightarrow> bool" where
  "alternativesInclude uni l =
     (case alternatives (languageRequirements uni) of
        None \<Rightarrow> False
      | Some alts \<Rightarrow> l \<in> set alts)"

section \<open>The engine (src/lib/engines/path-matcher.ts)\<close>

subsection \<open>Eligibility filter\<close>

text \<open>
  The callback of \<^verbatim>\<open>UNIVERSITIES.filter\<close>. The guard \<^verbatim>\<open>profile.targetCountry && ...\<close>
  tests the optional string for truthiness: an absent and an empty target country
  both switch the country constraint off.
\<close>

definition eligible :: "StudentProfile \<Rightarrow> University \<Rightarrow> bool" where
  "eligible profile uni =
     (if (case targetCountry profile of None \<Rightarrow> False | Some t \<Rightarrow> t \<noteq> [] \<and> t \<noteq> country_U uni)
        then False
      else if budgetLevel profile = Some Low \<and> tier (tuition uni) = TierHigh then False
      else if mainFear profile = Some Visa \<and> visaDifficulty uni = Hard then False
      else if confidenceLevel profile = Some Low \<and> workloadIntensity uni \<ge> 9 then False
      else True)"

definition filterEligibleUniversities :: "Catalog \<Rightarrow> StudentProfile \<Rightarrow> University list" where
  "filterEligibleUniversities catalog profile = filter (eligible profile) (UNIVERSITIES catalog)"

subsection \<open>Fit scorer\<close>

definition calculateTeachingFit :: "StudentProfile \<Rightarrow> University \<Rightarrow> int" where
  "calculateTeachingFit profile uni =
     (if confidenceLevel profile = Some High \<and> teachingStyle uni = ResearchFocused then 90
      else if confidenceLevel profile = Some Low \<and> teachingStyle uni = LectureHeavy then 85
      else if teachingStyle uni = Mixed then 80
      else 70)"

text \<open>The \<^verbatim>\<open>confidenceMap\<close> local to calculateWorkloadFit.\<close>

fun workloadConfidenceMap :: "ConfidenceLevel \<Rightarrow> int" where
  "workloadConfidenceMap Low = 5"
| "workloadConfidenceMap Medium = 7"
| "workloadConfidenceMap High = 10"

text \<open>
  Without a confidence level \<^verbatim>\<open>maxWorkload\<close> is \<^verbatim>\<open>undefined\<close>: the comparison
  \<^verbatim>\<open><=\<close> is false, the subtraction gives NaN, and \<^verbatim>\<open>Math.max(0, NaN)\<close> is NaN.
\<close>

definition calculateWorkloadFit :: "StudentProfile \<Rightarrow> University \<Rightarrow> number" where
  "calculateWorkloadFit profile uni =
     (case confidenceLevel profile of
        None \<Rightarrow> NaN
      | Some c \<Rightarrow>
          (let maxWorkload = workloadConfidenceMap c in
           if workloadIntensity uni \<le> maxWorkload
             then Num (100 - (maxWorkload - workloadIntensity uni) * 5)
             else Num (max 0 (100 - (workloadIntensity uni - maxWorkload) * 15))))"

definition calculateLanguageFit :: "StudentProfile \<Rightarrow> University \<Rightarrow> int" where
  "calculateLanguageFit profile uni =
     (if primary (languageRequirements uni) = ''English'' then 95
      else if alternativesInclude uni ''English'' then 80
      else 60)"

text \<open>
  The object literal \<^verbatim>\<open>budgetMap\<close>: one row for each budget level, one cell in each
  row for each tuition tier.
\<close>

fun budgetMap :: "BudgetLevel \<Rightarrow> TuitionTier \<Rightarrow> int" where
  "budgetMap Low TierFree = 100"
| "budgetMap Low TierLow = 90"
| "budgetMap Low TierMedium = 40"
| "budgetMap Low TierHigh = 10"
| "budgetMap Medium TierFree = 100"
| "budgetMap Medium TierLow = 95"
| "budgetMap Medium TierMedium = 85"
| "budgetMap Medium TierHigh = 50"
| "budgetMap High TierFree = 100"
| "budgetMap High TierLow = 95"
| "budgetMap High TierMedium = 90"
| "budgetMap High TierHigh = 85"

text \<open>
  Without a budget level \<^verbatim>\<open>budgetMap[profile.budgetLevel]\<close> is \<^verbatim>\<open>undefined\<close>, and
  reading a property of \<^verbatim>\<open>undefined\<close> throws a TypeError.
\<close>

definition calculateCostFit :: "StudentProfile \<Rightarrow> University \<Rightarrow> error + int" where
  "calculateCostFit profile uni =
     (case budgetLevel profile of
        None \<Rightarrow> Inl TypeError
      | Some b \<Rightarrow> Inr (budgetMap b (tier (tuition uni))))"

fun strictDifficultyMap :: "Difficulty \<Rightarrow> int" where
  "strictDifficultyMap Easy = 100"
| "strictDifficultyMap Moderate = 60"
| "strictDifficultyMap Hard = 20"

fun lenientDifficultyMap :: "Difficulty \<Rightarrow> int" where
  "lenientDifficultyMap Easy = 100"
| "lenientDifficultyMap Moderate = 85"
| "lenientDifficultyMap Hard = 70"

definition calculateVisaFit :: "StudentProfile \<Rightarrow> University \<Rightarrow> int" where
  "calculateVisaFit profile uni =
     (if mainFear profile = Some Visa then strictDifficultyMap (visaDifficulty uni)
      else lenientDifficultyMap (visaDifficulty uni))"

text \<open>
  The weighted sum, with the weights as the source writes them, taken in the reals.
  A NaN workload score makes the overall score NaN.
\<close>

definition weightedSum :: "int \<Rightarrow> int \<Rightarrow> int \<Rightarrow> int \<Rightarrow> int \<Rightarrow> int \<Rightarrow> real" where
  "weightedSum t w l c v s =
     real_of_int t * 0.2 + real_of_int w * 0.15 + real_of_int l * 0.15 +
     real_of_int c * 0.25 + real_of_int v * 0.15 + real_of_int s * 0.1"

definition calculateFitScore :: "StudentProfile \<Rightarrow> University \<Rightarrow> error + FitScore" where
  "calculateFitScore profile uni =
     (case calculateCostFit profile uni of
        Inl e \<Rightarrow> Inl e
      | Inr costFit \<Rightarrow>
          (let scores = \<lparr>teaching = calculateTeachingFit profile uni,
                         workload = calculateWorkloadFit profile uni,
                         language = calculateLanguageFit profile uni,
                         cost = costFit,
                         visa = calculateVisaFit profile uni,
                         support = internationalStudentSupport uni * 10\<rparr>
           in Inr \<lparr>overall =
                     (case workload scores of
                        NaN \<Rightarrow> NaN
                      | Num w \<Rightarrow>
                          Num (Math_round (weightedSum (teaching scores) w (language scores)
                                             (cost scores) (visa scores) (support scores)))),
                   breakdown = scores\<rparr>))"

subsection \<open>Scoring and sorting the eligible universities\<close>

text \<open>The objects \<^verbatim>\<open>{ university, fitScore }\<close> that generatePaths builds.\<close>

record Scored =
  university :: University
  fitScore :: FitScore

text \<open>
  \<^verbatim>\<open>eligibleUniversities.map(...)\<close>: the first exception of calculateFitScore ends
  the whole call.
\<close>

fun scoreUniversities :: "StudentProfile \<Rightarrow> University list \<Rightarrow> error + Scored list" where
  "scoreUniversities profile [] = Inr []"
| "scoreUniversities profile (uni # rest) =
     (case calculateFitScore profile uni of
        Inl e \<Rightarrow> Inl e
      | Inr fs \<Rightarrow>
          (case scoreUniversities profile rest of
             Inl e \<Rightarrow> Inl e
           | Inr ys \<Rightarrow> Inr (\<lparr>university = uni, fitScore = fs\<rparr> # ys)))"

text \<open>
  The comparator \<^verbatim>\<open>(a, b) => b.fitScore.overall - a.fitScore.overall\<close>; the sort reads
  a NaN result as 0. \<^verbatim>\<open>Array.prototype.sort\<close> is stable, so with this comparator
  its result is the one of a stable insertion sort. (The scores of one call are all
  NaN or all numbers, so the comparator is consistent.)
\<close>

definition compareFit :: "Scored \<Rightarrow> Scored \<Rightarrow> int" where
  "compareFit a b =
     (case (overall (fitScore b), overall (fitScore a)) of
        (Num y, Num x) \<Rightarrow> y - x
      | _ \<Rightarrow> 0)"

fun insertByFit :: "Scored \<Rightarrow> Scored list \<Rightarrow> Scored list" where
  "insertByFit x [] = [x]"
| "insertByFit x (y # ys) =
     (if compareFit x y \<le> 0 then x # y # ys else y # insertByFit x ys)"

definition sortByFit :: "Scored list \<Rightarrow> Scored list" where
  "sortByFit xs = foldr insertByFit xs []"

subsection \<open>Diversity selector\<close>

text \<open>
  \<^verbatim>\<open>selected.includes(item)\<close> compares objects by identity, and the elements of
  \<^verbatim>\<open>scored\<close> are distinct objects (generatePaths, the only caller, creates each one in
  its \<^verbatim>\<open>map\<close>). An element is therefore paired with its position in \<^verbatim>\<open>scored\<close>: the
  position is its identity.
\<close>

type_synonym Item = "nat \<times> Scored"

text \<open>
  The \<^verbatim>\<open>for\<close> loop over \<^verbatim>\<open>scored\<close>; \<open>seen\<close> is its set \<^verbatim>\<open>countries\<close>.
\<close>

fun selectLoop :: "nat \<Rightarrow> Item list \<Rightarrow> Item list \<Rightarrow> string set \<Rightarrow> Item list" where
  "selectLoop count [] selected seen = selected"
| "selectLoop count (item # rest) selected seen =
     (if length selected \<ge> count then selected
      else if length selected < 2 \<or> country_U (university (snd item)) \<notin> seen
        then selectLoop count rest (selected @ [item])
               (insert (country_U (university (snd item))) seen)
        else selectLoop count rest selected seen)"

text \<open>The \<^verbatim>\<open>while\<close> loop that fills the remaining slots.\<close>

function fillRemaining :: "nat \<Rightarrow> Item list \<Rightarrow> Item list \<Rightarrow> Item list" where
  "fillRemaining count scored selected =
     (if length selected < count \<and> length selected < length scored then
        (case filter (\<lambda>item. item \<notin> set selected) scored of
           [] \<Rightarrow> selected
         | r # _ \<Rightarrow> fillRemaining count scored (selected @ [r]))
      else selected)"
  by pat_completeness auto
termination
  by (relation "measure (\<lambda>(count, scored, selected). count - length selected)") auto

declare fillRemaining.simps [simp del]

definition selectDiversePaths :: "Scored list \<Rightarrow> nat \<Rightarrow> Scored list" where
  "selectDiversePaths scored count =
     (let items = enumerate 0 scored in
      map snd (fillRemaining count items (selectLoop count items [] {})))"

subsection \<open>Risk assessor\<close>

text \<open>
  \<^verbatim>\<open>COUNTRIES.find(...)\<close> gives the first record with the university's country name, or
  \<^verbatim>\<open>undefined\<close>; \<^verbatim>\<open>country?.costOfLiving.tier === "high"\<close> is then false.
\<close>

definition assessFinancialRisk :: "Catalog \<Rightarrow> StudentProfile \<Rightarrow> University \<Rightarrow> RiskEntry" where
  "assessFinancialRisk catalog profile uni =
     (let budgetMismatch =
            ((budgetLevel profile = Some Low \<and> tier (tuition uni) = TierMedium) \<or>
             (budgetLevel profile = Some Medium \<and> tier (tuition uni) = TierHigh));
          found = find (\<lambda>c. name_C c = country_U uni) (COUNTRIES catalog);
          highCostOfLiving =
            (case found of None \<Rightarrow> False | Some c \<Rightarrow> tier_C (costOfLiving c) = High)
      in \<lparr>severity = (if budgetMismatch \<or> highCostOfLiving then High else Low),
          likelihood = (if budgetMismatch then 70 else 30),
          description_R =
            (if budgetMismatch
               then ''Tuition ('' @ currency (tuition uni) @ '' '' @
                    numberToString (annualCost (tuition uni)) @ '') may exceed your '' @
                    levelToString (budgetLevel profile) @ '' budget''
               else ''Costs are manageable with '' @ levelToString (budgetLevel profile) @
                    '' budget''),
          mitigation =
            [''Apply for scholarships'',
             ''Look for part-time work opportunities'',
             ''Consider student loans'',
             ''Budget carefully for living expenses'']\<rparr>)"

fun visaSeverityMap :: "Difficulty \<Rightarrow> Level" where
  "visaSeverityMap Easy = Low"
| "visaSeverityMap Moderate = Medium"
| "visaSeverityMap Hard = High"

fun visaLikelihoodMap :: "Difficulty \<Rightarrow> int" where
  "visaLikelihoodMap Easy = 10"
| "visaLikelihoodMap Moderate = 30"
| "visaLikelihoodMap Hard = 60"

definition assessVisaRisk :: "StudentProfile \<Rightarrow> University \<Rightarrow> RiskEntry" where
  "assessVisaRisk profile uni =
     \<lparr>severity = visaSeverityMap (visaDifficulty uni),
      likelihood = visaLikelihoodMap (visaDifficulty uni),
      description_R =
        ''Visa difficulty is '' @ difficultyToString (visaDifficulty uni) @ '' for '' @
        country_U uni,
      mitigation =
        [''Start visa process early'',
         ''Prepare all documents thoroughly'',
         ''Seek visa consultation'',
         ''Have backup country options'']\<rparr>"

text \<open>The \<^verbatim>\<open>confidenceMap\<close> local to assessAcademicRisk.\<close>

fun academicConfidenceMap :: "ConfidenceLevel \<Rightarrow> int" where
  "academicConfidenceMap Low = 3"
| "academicConfidenceMap Medium = 7"
| "academicConfidenceMap High = 10"

text \<open>A comparison with \<^verbatim>\<open>undefined\<close> is false.\<close>

definition assessAcademicRisk :: "StudentProfile \<Rightarrow> University \<Rightarrow> RiskEntry" where
  "assessAcademicRisk profile uni =
     (let overload =
            (case confidenceLevel profile of
               None \<Rightarrow> False
             | Some c \<Rightarrow> workloadIntensity uni > academicConfidenceMap c)
      in \<lparr>severity = (if overload then High else Low),
          likelihood = (if overload then 60 else 20),
          description_R =
            (if overload
               then ''Workload intensity ('' @ numberToString (workloadIntensity uni) @
                    ''/10) may be challenging for your '' @
                    levelToString (confidenceLevel profile) @ '' confidence level''
               else ''Workload is manageable for your confidence level''),
          mitigation =
            [''Start with lighter course load'',
             ''Use university tutoring services'',
             ''Form study groups'',
             ''Manage time effectively'']\<rparr>)"

definition assessTimeRisk :: "StudentProfile \<Rightarrow> University \<Rightarrow> RiskEntry" where
  "assessTimeRisk profile uni =
     \<lparr>severity = Medium,
      likelihood = 40,
      description_R = ''Potential delays in graduation or visa processing'',
      mitigation =
        [''Plan for buffer time'',
         ''Stay on top of deadlines'',
         ''Have contingency plans'']\<rparr>"

definition assessRisks :: "Catalog \<Rightarrow> StudentProfile \<Rightarrow> University \<Rightarrow> RiskAssessment" where
  "assessRisks catalog profile uni =
     \<lparr>financial = assessFinancialRisk catalog profile uni,
      visa_R = assessVisaRisk profile uni,
      academic = assessAcademicRisk profile uni,
      time = assessTimeRisk profile uni\<rparr>"

subsection \<open>Path assembler\<close>

definition generateExclusions :: "StudentProfile \<Rightarrow> University \<Rightarrow> string list" where
  "generateExclusions profile uni =
     (if workloadIntensity uni \<ge> 9 then [''you prefer a relaxed academic environment''] else []) @
     (if tier (tuition uni) = TierHigh then [''you have strict budget constraints''] else []) @
     (if primary (languageRequirements uni) \<noteq> ''English'' \<and> \<not> alternativesInclude uni ''English''
        then [''you'' @ [CHR 0x27] @ ''re not comfortable learning in '' @
              primary (languageRequirements uni)]
        else []) @
     (if acceptanceRate uni < 10 then [''you need a safer acceptance option''] else [])"

text \<open>The callback of \<^verbatim>\<open>SCHOLARSHIPS.filter\<close>, with its three early returns.\<close>

definition matches :: "StudentProfile \<Rightarrow> University \<Rightarrow> Scholarship \<Rightarrow> bool" where
  "matches profile uni sch =
     (if country_S sch \<noteq> country_U uni then False
      else if educationStage profile \<notin> set (educationStage_E (eligibility sch)) then False
      else if length (countries (eligibility sch)) > 0 \<and>
              currentCountry profile \<notin> set (countries (eligibility sch)) \<and>
              ''All'' \<notin> set (countries (eligibility sch))
        then False
      else True)"

definition findMatchingScholarships :: "Catalog \<Rightarrow> StudentProfile \<Rightarrow> University \<Rightarrow> Scholarship list" where
  "findMatchingScholarships catalog profile uni =
     take 3 (filter (matches profile uni) (SCHOLARSHIPS catalog))"

text \<open>
  generateTimeline reads the clock: \<open>now\<close> is the time value that its \<^verbatim>\<open>new Date()\<close>
  returns.
\<close>

definition generateTimeline :: "int \<Rightarrow> StudentProfile \<Rightarrow> University \<Rightarrow> TimelineEvent list" where
  "generateTimeline now profile uni =
     [\<lparr>id_Ev = ''evt-1'',
       date = now + 180 * 24 * 60 * 60 * 1000,
       title = ''Application Deadline'',
       description_Ev = ''Submit application to '' @ name_U uni,
       type_Ev = Deadline,
       importance = High,
       completed = None\<rparr>,
      \<lparr>id_Ev = ''evt-2'',
       date = now + 270 * 24 * 60 * 60 * 1000,
       title = ''Visa Application'',
       description_Ev = ''Apply for student visa'',
       type_Ev = Decision,
       importance = High,
       completed = None\<rparr>,
      \<lparr>id_Ev = ''evt-3'',
       date = now + 365 * 24 * 60 * 60 * 1000,
       title = ''Program Starts'',
       description_Ev = ''Begin studies'',
       type_Ev = Milestone,
       importance = High,
       completed = None\<rparr>]"

definition buildPath :: "Catalog \<Rightarrow> int \<Rightarrow> StudentProfile \<Rightarrow> University \<Rightarrow> FitScore \<Rightarrow> Path" where
  "buildPath catalog now profile uni fs =
     \<lparr>id_Path = ''path-'' @ id_U uni,
      type_Path = UniversityPath,
      name_Path = ''Study at '' @ name_U uni,
      description_Path =
        (if ranking uni \<le> 50 then ''Top-ranked'' else ''Quality'') @ '' '' @
        teachingStyleToString (teachingStyle uni) @ '' university in '' @ city uni @ '', '' @
        country_U uni,
      fitScore_Path = fs,
      risks = assessRisks catalog profile uni,
      notForYouIf = generateExclusions profile uni,
      details = uni,
      scholarships = findMatchingScholarships catalog profile uni,
      timeline = generateTimeline now profile uni\<rparr>"

subsection \<open>generatePaths\<close>

text \<open>
  The engine reads the clock once for each Path it builds, in selection order:
  \<open>clock k\<close> is the time value of the \<open>k\<close>-th reading of one call. An exception of
  the scoring step is the result \<open>Inl\<close>.
\<close>

definition generatePaths :: "Catalog \<Rightarrow> (nat \<Rightarrow> int) \<Rightarrow> StudentProfile \<Rightarrow> error + Path list" where
  "generatePaths catalog clock profile =
     (let eligibleUniversities = filterEligibleUniversities catalog profile in
      case scoreUniversities profile eligibleUniversities of
        Inl e \<Rightarrow> Inl e
      | Inr scoredUniversities \<Rightarrow>
          (let selectedPaths = selectDiversePaths (sortByFit scoredUniversities) 3 in
           Inr (map (\<lambda>(k, item). buildPath catalog (clock k) profile (university item) (fitScore item))
                  (enumerate 0 selectedPaths))))"

section \<open>The specification's predicates\<close>

text \<open>
  The conditions of the specification, written from its words; the properties below
  compare the engine with them.
\<close>

text \<open>
  The hard constraints of the eligibility filter. A target country is set when the
  field is present and is not the empty string.
\<close>

definition hardConstraints :: "StudentProfile \<Rightarrow> University \<Rightarrow> bool" where
  "hardConstraints profile uni \<longleftrightarrow>
     (case targetCountry profile of None \<Rightarrow> True | Some t \<Rightarrow> t = [] \<or> country_U uni = t) \<and>
     \<not> (budgetLevel profile = Some Low \<and> tier (tuition uni) = TierHigh) \<and>
     \<not> (mainFear profile = Some Visa \<and> visaDifficulty uni = Hard) \<and>
     \<not> (confidenceLevel profile = Some Low \<and> workloadIntensity uni \<ge> 9)"

text \<open>The budget-tuition mismatch of the financial risk.\<close>

definition budgetTuitionMismatch :: "StudentProfile \<Rightarrow> University \<Rightarrow> bool" where
  "budgetTuitionMismatch profile uni \<longleftrightarrow>
     (budgetLevel profile = Some Low \<and> tier (tuition uni) = TierMedium) \<or>
     (budgetLevel profile = Some Medium \<and> tier (tuition uni) = TierHigh)"

text \<open>
  The university's country has a Country record, and (the first) one has the
  cost-of-living tier "high".
\<close>

definition highCostCountry :: "Catalog \<Rightarrow> University \<Rightarrow> bool" where
  "highCostCountry catalog uni \<longleftrightarrow>
     (case find (\<lambda>c. name_C c = country_U uni) (COUNTRIES catalog) of
        None \<Rightarrow> False
      | Some c \<Rightarrow> tier_C (costOfLiving c) = High)"

text \<open>A scholarship qualifies for a profile and a university.\<close>

definition qualifies :: "StudentProfile \<Rightarrow> University \<Rightarrow> Scholarship \<Rightarrow> bool" where
  "qualifies profile uni sch \<longleftrightarrow>
     country_S sch = country_U uni \<and>
     educationStage profile \<in> set (educationStage_E (eligibility sch)) \<and>
     (countries (eligibility sch) = [] \<or>
      currentCountry profile \<in> set (countries (eligibility sch)) \<or>
      ''All'' \<in> set (countries (eligibility sch)))"

text \<open>How the engine's output depends on the clock: the dates of a Path, moved by \<open>d\<close>.\<close>

definition shiftDates :: "int \<Rightarrow> Path \<Rightarrow> Path" where
  "shiftDates d path = path\<lparr>timeline := map (\<lambda>e. e\<lparr>date := date e + d\<rparr>) (timeline path)\<rparr>"

section \<open>Example data\<close>

text \<open>
  The three curated universities of src/lib/scrapers/university-scraper.ts (their
  \<^verbatim>\<open>scrapedAt\<close> set to the epoch), with a scholarship and two country records, as a
  small catalog.
\<close>

definition uniMIT :: University where
  "uniMIT =
     \<lparr>id_U = ''uni-mit'', name_U = ''Massachusetts Institute of Technology'',
      country_U = ''United States'', city = ''Cambridge'', ranking = 1,
      teachingStyle = ResearchFocused, workloadIntensity = 10,
      languageRequirements =
        \<lparr>primary = ''English'', alternatives = None, proficiencyRequired = Advanced\<rparr>,
      tuition = \<lparr>currency = ''USD'', annualCost = 53790, tier = TierHigh\<rparr>,
      visaDifficulty = Moderate, internationalStudentSupport = 9, acceptanceRate = 4,
      website_U = ''https://www.mit.edu'', imageUrl = None, dataSource = None,
      scrapedAt_U = 0\<rparr>"

definition uniTUM :: University where
  "uniTUM =
     \<lparr>id_U = ''uni-tum'', name_U = ''Technical University of Munich'',
      country_U = ''Germany'', city = ''Munich'', ranking = 37,
      teachingStyle = ResearchFocused, workloadIntensity = 8,
      languageRequirements =
        \<lparr>primary = ''German'', alternatives = Some [''English''],
         proficiencyRequired = Intermediate\<rparr>,
      tuition = \<lparr>currency = ''EUR'', annualCost = 0, tier = TierFree\<rparr>,
      visaDifficulty = Easy, internationalStudentSupport = 8, acceptanceRate = 8,
      website_U = ''https://www.tum.de'', imageUrl = None, dataSource = None,
      scrapedAt_U = 0\<rparr>"

definition uniNUS :: University where
  "uniNUS =
     \<lparr>id_U = ''uni-nus'', name_U = ''National University of Singapore'',
      country_U = ''Singapore'', city = ''Singapore'', ranking = 8,
      teachingStyle = Mixed, workloadIntensity = 9,
      languageRequirements =
        \<lparr>primary = ''English'', alternatives = None, proficiencyRequired = Advanced\<rparr>,
      tuition = \<lparr>currency = ''SGD'', annualCost = 17550, tier = TierMedium\<rparr>,
      visaDifficulty = Easy, internationalStudentSupport = 9, acceptanceRate = 5,
      website_U = ''https://www.nus.edu.sg'', imageUrl = None, dataSource = None,
      scrapedAt_U = 0\<rparr>"

definition schGermany :: Scholarship where
  "schGermany =
     \<lparr>id_S = ''sch-de'', name_S = ''Study Scholarship Germany'', provider = ''Exchange Service'',
      country_S = ''Germany'',
      eligibility =
        \<lparr>countries = [''All''], minGPA = None, educationStage_E = [Bachelors, Masters],
         ageLimit = None, workExperienceRequired = None\<rparr>,
      amount = \<lparr>currency_A = ''EUR'', value_A = 11000, coverage = Partial\<rparr>,
      deadline = 0, competitiveness = High, applicationComplexity = 7,
      website_S = ''https://example.org/de'', scrapedAt_S = 0\<rparr>"

definition schSingapore :: Scholarship where
  "schSingapore =
     \<lparr>id_S = ''sch-sg'', name_S = ''Regional Scholarship Singapore'', provider = ''Ministry'',
      country_S = ''Singapore'',
      eligibility =
        \<lparr>countries = [''Malaysia'', ''Indonesia''], minGPA = None, educationStage_E = [Bachelors],
         ageLimit = None, workExperienceRequired = None\<rparr>,
      amount = \<lparr>currency_A = ''SGD'', value_A = 20000, coverage = Full\<rparr>,
      deadline = 0, competitiveness = High, applicationComplexity = 8,
      website_S = ''https://example.org/sg'', scrapedAt_S = 0\<rparr>"

definition countryGermany :: Country where
  "countryGermany =
     \<lparr>code = ''DE'', name_C = ''Germany'',
      costOfLiving = \<lparr>tier_C = Medium, monthlyAverage = 1000, currency_C = ''EUR''\<rparr>,
      languageBarrier = 6, cultureShockRisk = 4,
      visaProcessing =
        \<lparr>difficulty = Easy, averageProcessingDays = 30, successRate = 90, requirements = []\<rparr>,
      postStudyWork = \<lparr>allowed = True, duration = None, restrictions = None\<rparr>,
      safetyRating = 8, scrapedAt_C = 0\<rparr>"

definition countrySingapore :: Country where
  "countrySingapore =
     \<lparr>code = ''SG'', name_C = ''Singapore'',
      costOfLiving = \<lparr>tier_C = High, monthlyAverage = 2500, currency_C = ''SGD''\<rparr>,
      languageBarrier = 2, cultureShockRisk = 4,
      visaProcessing =
        \<lparr>difficulty = Easy, averageProcessingDays = 20, successRate = 95, requirements = []\<rparr>,
      postStudyWork = \<lparr>allowed = True, duration = None, restrictions = None\<rparr>,
      safetyRating = 9, scrapedAt_C = 0\<rparr>"

definition curated :: Catalog where
  "curated =
     \<lparr>UNIVERSITIES = [uniMIT, uniTUM, uniNUS],
      SCHOLARSHIPS = [schGermany, schSingapore],
      COUNTRIES = [countryGermany, countrySingapore]\<rparr>"

definition emptyCatalog :: Catalog where
  "emptyCatalog = \<lparr>UNIVERSITIES = [], SCHOLARSHIPS = [], COUNTRIES = []\<rparr>"

text \<open>A confident student with a medium budget, and a cautious one bound for Germany.\<close>

definition student :: StudentProfile where
  "student =
     \<lparr>id_P = ''p-1'', situation = StudyAbroad, currentCountry = ''India'',
      targetCountry = None, educationStage = Bachelors, budgetLevel = Some Medium,
      mainFear = Some Money, confidenceLevel = Some High, createdAt = 0\<rparr>"

definition cautious :: StudentProfile where
  "cautious =
     \<lparr>id_P = ''p-2'', situation = StudyAbroad, currentCountry = ''India'',
      targetCountry = Some ''Germany'', educationStage = Bachelors, budgetLevel = Some Low,
      mainFear = Some Visa, confidenceLevel = Some Low, createdAt = 0\<rparr>"

text \<open>
  Profiles as a request body can deliver them, each without one of the fields that
  the type requires.
\<close>

definition noBudget :: StudentProfile where
  "noBudget = student\<lparr>budgetLevel := None\<rparr>"

definition noFear :: StudentProfile where
  "noFear = student\<lparr>mainFear := None\<rparr>"

definition noConfidence :: StudentProfile where
  "noConfidence = student\<lparr>confidenceLevel := None\<rparr>"

text \<open>
  A score-sorted list for the selector: three candidates in the United States ahead
  of one in Germany.
\<close>

definition scoredAt :: "int \<Rightarrow> University \<Rightarrow> Scored" where
  "scoredAt n uni =
     \<lparr>university = uni,
      fitScore =
        \<lparr>overall = Num n,
         breakdown =
           \<lparr>teaching = n, workload = Num n, language = n, cost = n, visa = n, support = n\<rparr>\<rparr>\<rparr>"

definition ranked :: "Scored list" where
  "ranked =
     [scoredAt 90 uniMIT,
      scoredAt 88 (uniMIT\<lparr>id_U := ''uni-2'', name_U := ''Second University''\<rparr>),
      scoredAt 86 (uniMIT\<lparr>id_U := ''uni-3'', name_U := ''Third University''\<rparr>),
      scoredAt 80 uniTUM]"

text \<open>Two clocks: every reading at the epoch, and every reading a millisecond later.\<close>

definition epoch :: "nat \<Rightarrow> int" where
  "epoch k = 0"

definition later :: "nat \<Rightarrow> int" where
  "later k = 1"

section \<open>Properties\<close>

subsection \<open>The cost table\<close>

lemma UNIV_Level: "(UNIV :: Level set) = {Low, Medium, High}"
  by (auto intro: Level.exhaust)

lemma UNIV_TuitionTier: "(UNIV :: TuitionTier set) = {TierFree, TierLow, TierMedium, TierHigh}"
  by (auto intro: TuitionTier.exhaust)

lemma budgetMap_graph:
  "{(b, t, v). v = budgetMap b t} = (\<lambda>(b, t). (b, t, budgetMap b t)) ` (UNIV \<times> UNIV)"
  by auto

lemma budgetMap_card: "card {(b, t, v). v = budgetMap b t} = 12"
proof -
  have "inj_on (\<lambda>(b, t). (b, t, budgetMap b t)) (UNIV \<times> UNIV)"
    by (auto simp: inj_on_def)
  then have "card {(b, t, v). v = budgetMap b t} =
      card ((UNIV :: Level set) \<times> (UNIV :: TuitionTier set))"
    unfolding budgetMap_graph by (rule card_image)
  also have "\<dots> = 12"
    by (simp add: card_cartesian_product UNIV_Level UNIV_TuitionTier)
  finally show ?thesis .
qed

lemma budgetMap_range: "10 \<le> budgetMap b t \<and> budgetMap b t \<le> 100"
  by (cases b; cases t) simp_all

text \<open>
  C5, as stated: the cost table has exactly 9 cells. It does not: a cell is a triple
  (budget level, tuition tier, value) of the table, and there are 12 of them, since
  a tuition tier is one of free, low, medium and high.
\<close>

theorem costFit_nine_cells_counterexample:
  "card {(b, t, v). v = budgetMap b t} \<noteq> 9"
  by (simp add: budgetMap_card)

text \<open>
  C5, amended: the cost fit is a fixed lookup table keyed by (budget level, tuition
  tier) with exactly 12 cells (3 budget levels, 4 tuition tiers), whose rows are
  100/90/40/10, 100/95/85/50 and 100/95/90/85; low budget versus high tuition yields
  10, a high budget yields at least 85 against every tier, and calculateCostFit
  returns the cell of the profile's budget level and the university's tuition tier.
\<close>

theorem costFit_table:
  "card {(b, t, v). v = budgetMap b t} = 12 \<and>
   map (\<lambda>b. map (budgetMap b) [TierFree, TierLow, TierMedium, TierHigh]) [Low, Medium, High] =
     [[100, 90, 40, 10], [100, 95, 85, 50], [100, 95, 90, 85]] \<and>
   budgetMap Low TierHigh = 10 \<and>
   (\<forall>t. 85 \<le> budgetMap High t) \<and>
   (\<forall>profile uni b.
      calculateCostFit (profile\<lparr>budgetLevel := Some b\<rparr>) uni = Inr (budgetMap b (tier (tuition uni))))"
proof -
  have "85 \<le> budgetMap High t" for t
    by (cases t) simp_all
  then show ?thesis
    by (simp add: budgetMap_card calculateCostFit_def)
qed

subsection \<open>Scoring, sorting and selection\<close>

lemma eligible_hard: "eligible profile = hardConstraints profile"
  by (auto simp: eligible_def hardConstraints_def fun_eq_iff split: option.splits)

lemma set_insertByFit: "set (insertByFit x ys) = insert x (set ys)"
  by (induction ys) auto

lemma length_insertByFit: "length (insertByFit x ys) = Suc (length ys)"
  by (induction ys) auto

lemma set_sortByFit: "set (sortByFit xs) = set xs"
  unfolding sortByFit_def by (induction xs) (auto simp: set_insertByFit)

lemma length_sortByFit: "length (sortByFit xs) = length xs"
  unfolding sortByFit_def by (induction xs) (auto simp: length_insertByFit)

lemma calculateFitScore_Inr:
  "budgetLevel profile = Some b \<Longrightarrow> \<exists>fs. calculateFitScore profile uni = Inr fs"
  by (simp add: calculateFitScore_def calculateCostFit_def Let_def)

lemma calculateFitScore_Inl:
  "calculateFitScore profile uni = Inl e \<Longrightarrow> budgetLevel profile = None"
  by (auto simp: calculateFitScore_def calculateCostFit_def Let_def split: option.splits)

lemma scoreUniversities_Inr:
  "budgetLevel profile = Some b \<Longrightarrow> \<exists>ys. scoreUniversities profile us = Inr ys"
proof (induction us)
  case Nil
  then show ?case by simp
next
  case (Cons u us)
  from Cons obtain ys where "scoreUniversities profile us = Inr ys" by auto
  moreover from Cons.prems obtain fs where "calculateFitScore profile u = Inr fs"
    using calculateFitScore_Inr by blast
  ultimately show ?case by simp
qed

lemma scoreUniversities_Inl:
  "scoreUniversities profile us = Inl e \<Longrightarrow> budgetLevel profile = None \<and> us \<noteq> []"
  by (induction us) (auto split: sum.splits dest: calculateFitScore_Inl)

lemma scoreUniversities_map:
  "scoreUniversities profile us = Inr ys \<Longrightarrow> map university ys = us"
  by (induction us arbitrary: ys) (auto split: sum.splits)

lemma selectLoop_full:
  "count \<le> length selected \<Longrightarrow> selectLoop count items selected seen = selected"
  by (cases items) auto

lemma selectLoop_subset:
  "set (selectLoop count items selected seen) \<subseteq> set selected \<union> set items"
proof (induction items arbitrary: selected seen)
  case Nil
  show ?case by simp
next
  case (Cons item rest)
  have a: "set (selectLoop count rest (selected @ [item]) s) \<subseteq> set selected \<union> set (item # rest)" for s
    using Cons [of "selected @ [item]" s] by auto
  have b: "set (selectLoop count rest selected seen) \<subseteq> set selected \<union> set (item # rest)"
    using Cons [of selected seen] by auto
  show ?case
    using a b by (simp del: set_simps set_append)
qed

lemma selectLoop_distinct:
  "distinct (selected @ items) \<Longrightarrow> distinct (selectLoop count items selected seen)"
  by (induction items arbitrary: selected seen) auto

lemma selectLoop_length:
  "length selected \<le> count \<Longrightarrow> length (selectLoop count items selected seen) \<le> count"
  by (induction items arbitrary: selected seen) auto

lemma fillRemaining_subset:
  "set (fillRemaining count scored selected) \<subseteq> set selected \<union> set scored"
proof (induction count scored selected rule: fillRemaining.induct)
  case (1 count scored selected)
  show ?case
  proof (cases "length selected < count \<and> length selected < length scored")
    case False
    then show ?thesis by (subst fillRemaining.simps) auto
  next
    case True
    show ?thesis
    proof (cases "filter (\<lambda>item. item \<notin> set selected) scored")
      case Nil
      with True show ?thesis by (subst fillRemaining.simps) auto
    next
      case (Cons r rs)
      then have "r \<in> set (filter (\<lambda>item. item \<notin> set selected) scored)" by simp
      then have "r \<in> set scored" by simp
      moreover have "set (fillRemaining count scored (selected @ [r])) \<subseteq> set (selected @ [r]) \<union> set scored"
        using "1.IH" True Cons by blast
      ultimately show ?thesis
        using True Cons by (subst fillRemaining.simps) auto
    qed
  qed
qed

lemma remaining_nonempty:
  assumes "distinct selected" "distinct scored" "length selected < length scored"
  shows "filter (\<lambda>item. item \<notin> set selected) scored \<noteq> []"
proof
  assume "filter (\<lambda>item. item \<notin> set selected) scored = []"
  then have "set scored \<subseteq> set selected"
    by (auto simp: filter_empty_conv)
  then have "card (set scored) \<le> card (set selected)"
    by (simp add: card_mono)
  then have "length scored \<le> length selected"
    using assms(1,2) by (simp add: distinct_card)
  with assms(3) show False by simp
qed

lemma fillRemaining_distinct:
  "distinct selected \<Longrightarrow> distinct (fillRemaining count scored selected)"
proof (induction count scored selected rule: fillRemaining.induct)
  case (1 count scored selected)
  show ?case
  proof (cases "length selected < count \<and> length selected < length scored")
    case False
    with "1.prems" show ?thesis by (subst fillRemaining.simps) auto
  next
    case True
    show ?thesis
    proof (cases "filter (\<lambda>item. item \<notin> set selected) scored")
      case Nil
      with True "1.prems" show ?thesis by (subst fillRemaining.simps) auto
    next
      case (Cons r rs)
      then have "r \<in> set (filter (\<lambda>item. item \<notin> set selected) scored)" by simp
      then have "r \<notin> set selected" by simp
      then have "distinct (selected @ [r])" using "1.prems" by simp
      then have "distinct (fillRemaining count scored (selected @ [r]))"
        using "1.IH" True Cons by blast
      then show ?thesis
        using True Cons by (subst fillRemaining.simps) auto
    qed
  qed
qed

lemma fillRemaining_length:
  assumes "distinct selected" "distinct scored" "length selected \<le> count"
    "length selected \<le> length scored"
  shows "length (fillRemaining count scored selected) = min count (length scored)"
  using assms
proof (induction count scored selected rule: fillRemaining.induct)
  case (1 count scored selected)
  show ?case
  proof (cases "length selected < count \<and> length selected < length scored")
    case False
    with "1.prems" show ?thesis by (subst fillRemaining.simps) auto
  next
    case True
    then have "filter (\<lambda>item. item \<notin> set selected) scored \<noteq> []"
      using remaining_nonempty "1.prems" by blast
    then obtain r rs where Cons: "filter (\<lambda>item. item \<notin> set selected) scored = r # rs"
      by (cases "filter (\<lambda>item. item \<notin> set selected) scored") auto
    then have "r \<in> set (filter (\<lambda>item. item \<notin> set selected) scored)" by simp
    then have "r \<notin> set selected" by simp
    then have "distinct (selected @ [r])" using "1.prems" by simp
    moreover have "length (selected @ [r]) \<le> count" "length (selected @ [r]) \<le> length scored"
      using True by auto
    ultimately have "length (fillRemaining count scored (selected @ [r])) = min count (length scored)"
      using "1.IH" True Cons "1.prems"(2) by blast
    then show ?thesis
      using True Cons by (subst fillRemaining.simps) auto
  qed
qed

lemma distinct_enumerate: "distinct (enumerate n xs)"
  by (simp add: distinct_map [THEN iffD1] distinct_conv_nth nth_enumerate_eq)

lemma selectDiversePaths_length:
  "length (selectDiversePaths scored count) = min count (length scored)"
proof -
  let ?items = "enumerate 0 scored"
  let ?sel = "selectLoop count ?items [] {}"
  have d: "distinct ?sel"
    by (rule selectLoop_distinct) (simp add: distinct_enumerate)
  have "set ?sel \<subseteq> set ?items"
    using selectLoop_subset [of count ?items "[]" "{}"] by simp
  then have "card (set ?sel) \<le> card (set ?items)"
    by (simp add: card_mono)
  then have l: "length ?sel \<le> length ?items"
    using d by (simp add: distinct_card distinct_enumerate)
  have "length ?sel \<le> count"
    by (rule selectLoop_length) simp
  then have "length (fillRemaining count ?items ?sel) = min count (length ?items)"
    using fillRemaining_length d l distinct_enumerate by blast
  then show ?thesis
    by (simp add: selectDiversePaths_def Let_def)
qed

lemma selectDiversePaths_subset:
  "set (selectDiversePaths scored count) \<subseteq> set scored"
proof -
  let ?items = "enumerate 0 scored"
  let ?sel = "selectLoop count ?items [] {}"
  have "set ?sel \<subseteq> set ?items"
    using selectLoop_subset [of count ?items "[]" "{}"] by simp
  then have "set (fillRemaining count ?items ?sel) \<subseteq> set ?items"
    using fillRemaining_subset [of count ?items ?sel] by blast
  then have "snd ` set (fillRemaining count ?items ?sel) \<subseteq> snd ` set ?items"
    by blast
  moreover have "snd ` set ?items = set (map snd ?items)"
    by (simp only: set_map)
  ultimately show ?thesis
    by (simp add: selectDiversePaths_def Let_def)
qed

lemma generatePaths_cases:
  "generatePaths catalog clock profile =
     (case scoreUniversities profile (filterEligibleUniversities catalog profile) of
        Inl e \<Rightarrow> Inl e
      | Inr scored \<Rightarrow>
          Inr (map (\<lambda>(k, item). buildPath catalog (clock k) profile (university item) (fitScore item))
                 (enumerate 0 (selectDiversePaths (sortByFit scored) 3))))"
  by (simp add: generatePaths_def Let_def split: sum.splits)

lemma generatePaths_InrD:
  assumes "generatePaths catalog clock profile = Inr paths"
  shows "\<exists>scored. scoreUniversities profile (filterEligibleUniversities catalog profile) = Inr scored \<and>
           paths = map (\<lambda>(k, item). buildPath catalog (clock k) profile (university item) (fitScore item))
                     (enumerate 0 (selectDiversePaths (sortByFit scored) 3))"
  using assms unfolding generatePaths_cases by (auto split: sum.splits)

lemma generatePaths_Inr:
  assumes "budgetLevel profile = Some b"
  shows "\<exists>paths. generatePaths catalog clock profile = Inr paths"
proof -
  obtain scored where "scoreUniversities profile (filterEligibleUniversities catalog profile) = Inr scored"
    using scoreUniversities_Inr [OF assms] by blast
  then show ?thesis unfolding generatePaths_cases by simp
qed

lemma generatePaths_InlD:
  assumes "generatePaths catalog clock profile = Inl e"
  shows "budgetLevel profile = None \<and> filterEligibleUniversities catalog profile \<noteq> []"
  using assms unfolding generatePaths_cases
  by (auto split: sum.splits dest: scoreUniversities_Inl)

lemma generatePaths_length:
  assumes "generatePaths catalog clock profile = Inr paths"
  shows "length paths = min 3 (length (filterEligibleUniversities catalog profile))"
proof -
  obtain scored where s: "scoreUniversities profile (filterEligibleUniversities catalog profile) = Inr scored"
    and p: "paths = map (\<lambda>(k, item). buildPath catalog (clock k) profile (university item) (fitScore item))
                     (enumerate 0 (selectDiversePaths (sortByFit scored) 3))"
    using generatePaths_InrD [OF assms] by blast
  have "length scored = length (filterEligibleUniversities catalog profile)"
    using scoreUniversities_map [OF s] by (metis length_map)
  then show ?thesis
    by (simp add: p selectDiversePaths_length length_sortByFit)
qed

lemma details_buildPath: "details (buildPath catalog now profile uni fs) = uni"
  by (simp add: buildPath_def)

lemma generatePaths_nth:
  assumes "generatePaths catalog clock profile = Inr paths" "k < length paths"
  shows "\<exists>fs. paths ! k = buildPath catalog (clock k) profile (details (paths ! k)) fs \<and>
           details (paths ! k) \<in> set (filterEligibleUniversities catalog profile)"
proof -
  obtain scored where s: "scoreUniversities profile (filterEligibleUniversities catalog profile) = Inr scored"
    and p: "paths = map (\<lambda>(k, item). buildPath catalog (clock k) profile (university item) (fitScore item))
                     (enumerate 0 (selectDiversePaths (sortByFit scored) 3))"
    using generatePaths_InrD [OF assms(1)] by blast
  let ?sel = "selectDiversePaths (sortByFit scored) 3"
  have k: "k < length ?sel" using assms(2) by (simp add: p)
  then have eq: "paths ! k = buildPath catalog (clock k) profile (university (?sel ! k)) (fitScore (?sel ! k))"
    by (simp add: p nth_enumerate_eq)
  have "?sel ! k \<in> set scored"
    using k selectDiversePaths_subset [of "sortByFit scored" 3] set_sortByFit [of scored]
    by (metis nth_mem subsetD)
  then have "university (?sel ! k) \<in> set (map university scored)" by simp
  then have "university (?sel ! k) \<in> set (filterEligibleUniversities catalog profile)"
    using scoreUniversities_map [OF s] by simp
  then show ?thesis
    using eq by (metis details_buildPath)
qed

lemma generatePaths_member:
  assumes "generatePaths catalog clock profile = Inr paths" "path \<in> set paths"
  shows "\<exists>now fs. path = buildPath catalog now profile (details path) fs \<and>
           details path \<in> set (filterEligibleUniversities catalog profile)"
proof -
  from assms(2) obtain k where "k < length paths" "paths ! k = path"
    by (auto simp: in_set_conv_nth)
  then show ?thesis using generatePaths_nth [OF assms(1), of k] by auto
qed

lemma eligible_member:
  "uni \<in> set (filterEligibleUniversities catalog profile) \<longleftrightarrow>
     uni \<in> set (UNIVERSITIES catalog) \<and> hardConstraints profile uni"
  by (simp add: filterEligibleUniversities_def eligible_hard)

lemma strict_budget_exclusion:
  "''you have strict budget constraints'' \<in> set (generateExclusions profile uni) \<longleftrightarrow>
     tier (tuition uni) = TierHigh"
  by (simp add: generateExclusions_def)

lemma notForYouIf_buildPath:
  "notForYouIf (buildPath catalog now profile uni fs) = generateExclusions profile uni"
  by (simp add: buildPath_def)

lemma scholarships_buildPath:
  "scholarships (buildPath catalog now profile uni fs) = findMatchingScholarships catalog profile uni"
  by (simp add: buildPath_def)

lemma risks_buildPath:
  "risks (buildPath catalog now profile uni fs) = assessRisks catalog profile uni"
  by (simp add: buildPath_def)

lemma eligible_student: "filterEligibleUniversities curated student = [uniMIT, uniTUM, uniNUS]"
  by (simp add: filterEligibleUniversities_def eligible_def curated_def student_def uniMIT_def uniTUM_def uniNUS_def)

lemma eligible_cautious: "filterEligibleUniversities curated cautious = [uniTUM]"
  by (simp add: filterEligibleUniversities_def eligible_def curated_def cautious_def uniMIT_def uniTUM_def uniNUS_def)

lemma fit_student_NUS:
  "calculateFitScore student uniNUS =
     Inr \<lparr>overall = Num 90,
          breakdown = \<lparr>teaching = 80, workload = Num 95, language = 95, cost = 85, visa = 100, support = 90\<rparr>\<rparr>"
  by (simp add: calculateFitScore_def calculateCostFit_def calculateTeachingFit_def
      calculateWorkloadFit_def calculateLanguageFit_def calculateVisaFit_def weightedSum_def
      Math_round_def student_def uniNUS_def)

lemma generatePaths_single:
  assumes "filterEligibleUniversities catalog profile = [uni]" "budgetLevel profile = Some b"
  shows "\<exists>paths. generatePaths catalog clock profile = Inr paths \<and> length paths = 1 \<and>
           details (paths ! 0) = uni"
proof -
  obtain paths where p: "generatePaths catalog clock profile = Inr paths"
    using generatePaths_Inr [OF assms(2)] by blast
  have l: "length paths = 1"
    using generatePaths_length [OF p] assms(1) by simp
  then have "details (paths ! 0) \<in> set (filterEligibleUniversities catalog profile)"
    using generatePaths_nth [OF p, of 0] by auto
  then show ?thesis using p l assms(1) by simp
qed

subsection \<open>Eligibility\<close>

text \<open>
  C2. The eligibility filter returns exactly the universities of the catalog, in
  catalog order, that satisfy all hard constraints: the target country, if one is
  set, is the university's country; not (budget low and tuition tier high); not
  (main fear visa and visa difficulty hard); not (confidence low and workload
  intensity at least 9). Consequently the candidate of every returned Path is a
  university of the catalog that satisfies them: for a profile with a low budget
  its tuition tier is not high, and for a profile whose fear is visa its visa
  difficulty is not hard.
\<close>

theorem eligibility_filter:
  "filterEligibleUniversities catalog profile =
     filter (hardConstraints profile) (UNIVERSITIES catalog) \<and>
   (\<forall>paths. generatePaths catalog clock profile = Inr paths \<longrightarrow>
      (\<forall>path \<in> set paths.
         details path \<in> set (UNIVERSITIES catalog) \<and>
         hardConstraints profile (details path) \<and>
         (budgetLevel profile = Some Low \<longrightarrow> tier (tuition (details path)) \<noteq> TierHigh) \<and>
         (mainFear profile = Some Visa \<longrightarrow> visaDifficulty (details path) \<noteq> Hard)))"
proof -
  have "filterEligibleUniversities catalog profile =
      filter (hardConstraints profile) (UNIVERSITIES catalog)"
    by (simp add: filterEligibleUniversities_def eligible_hard)
  moreover have "details path \<in> set (UNIVERSITIES catalog) \<and>
         hardConstraints profile (details path) \<and>
         (budgetLevel profile = Some Low \<longrightarrow> tier (tuition (details path)) \<noteq> TierHigh) \<and>
         (mainFear profile = Some Visa \<longrightarrow> visaDifficulty (details path) \<noteq> Hard)"
    if "generatePaths catalog clock profile = Inr paths" "path \<in> set paths" for paths path
  proof -
    have "details path \<in> set (filterEligibleUniversities catalog profile)"
      using generatePaths_member [OF that] by blast
    then have "details path \<in> set (UNIVERSITIES catalog)" "hardConstraints profile (details path)"
      by (simp_all add: eligible_member)
    then show ?thesis
      by (auto simp: hardConstraints_def)
  qed
  ultimately show ?thesis by blast
qed

theorem eligibility_filter_witness:
  "budgetLevel cautious = Some Low \<and> mainFear cautious = Some Visa \<and>
   filterEligibleUniversities curated cautious = [uniTUM] \<and>
   (\<exists>paths. generatePaths curated epoch cautious = Inr paths \<and> length paths = 1 \<and>
      details (paths ! 0) = uniTUM \<and>
      tier (tuition (details (paths ! 0))) \<noteq> TierHigh \<and>
      visaDifficulty (details (paths ! 0)) \<noteq> Hard)"
proof -
  have b: "budgetLevel cautious = Some Low" and f: "mainFear cautious = Some Visa"
    by (simp_all add: cautious_def)
  obtain paths where p: "generatePaths curated epoch cautious = Inr paths" "length paths = 1"
      "details (paths ! 0) = uniTUM"
    using generatePaths_single [OF eligible_cautious b] by blast
  then have "paths ! 0 \<in> set paths" by simp
  then have "tier (tuition (details (paths ! 0))) \<noteq> TierHigh \<and>
      visaDifficulty (details (paths ! 0)) \<noteq> Hard"
    using eligibility_filter [of curated cautious epoch] p(1) b f by blast
  then show ?thesis
    using b f p eligible_cautious by blast
qed

subsection \<open>Exclusions\<close>

text \<open>
  C10. For every profile with the budget level low, no Path that generatePaths
  returns has the disqualifier "you have strict budget constraints" in its
  notForYouIf list: the eligibility filter has removed every candidate with a high
  tuition tier before the path assembler tests the tier.
\<close>

theorem low_budget_no_strict_budget_exclusion:
  assumes "budgetLevel profile = Some Low"
    and "generatePaths catalog clock profile = Inr paths"
    and "path \<in> set paths"
  shows "''you have strict budget constraints'' \<notin> set (notForYouIf path)"
proof -
  obtain now fs where path: "path = buildPath catalog now profile (details path) fs"
    and el: "details path \<in> set (filterEligibleUniversities catalog profile)"
    using generatePaths_member [OF assms(2,3)] by blast
  have "hardConstraints profile (details path)"
    using el by (simp add: eligible_member)
  then have "tier (tuition (details path)) \<noteq> TierHigh"
    using assms(1) by (simp add: hardConstraints_def)
  then have "''you have strict budget constraints'' \<notin> set (generateExclusions profile (details path))"
    by (simp add: strict_budget_exclusion)
  moreover have "notForYouIf path = generateExclusions profile (details path)"
    using path notForYouIf_buildPath by metis
  ultimately show ?thesis by simp
qed

theorem low_budget_no_strict_budget_exclusion_witness:
  "budgetLevel cautious = Some Low \<and>
   (\<exists>paths. generatePaths curated epoch cautious = Inr paths \<and> paths \<noteq> [] \<and>
      ''you have strict budget constraints'' \<notin> set (notForYouIf (hd paths)))"
proof -
  have b: "budgetLevel cautious = Some Low"
    by (simp add: cautious_def)
  obtain paths where p: "generatePaths curated epoch cautious = Inr paths" "length paths = 1"
    using generatePaths_single [OF eligible_cautious b] by blast
  then have "paths \<noteq> []" "hd paths \<in> set paths" by (cases paths; simp)+
  then show ?thesis
    using low_budget_no_strict_budget_exclusion [OF b p(1)] b p(1) by blast
qed

subsection \<open>Fit score\<close>

lemma Math_round_range:
  assumes "0 \<le> x" "x \<le> 100"
  shows "0 \<le> Math_round x \<and> Math_round x \<le> 100"
proof -
  have "0 \<le> \<lfloor>x + 1 / 2\<rfloor>" using assms by (simp add: le_floor_iff)
  moreover have "\<lfloor>x + 1 / 2\<rfloor> \<le> 100" using assms by (simp add: floor_le_iff)
  ultimately show ?thesis by (simp add: Math_round_def)
qed

lemma Math_round_nearest: "\<bar>real_of_int (Math_round x) - x\<bar> \<le> 1 / 2"
  unfolding Math_round_def by linarith

lemma teaching_range: "70 \<le> calculateTeachingFit profile uni \<and> calculateTeachingFit profile uni \<le> 90"
  by (simp add: calculateTeachingFit_def)

lemma language_range: "60 \<le> calculateLanguageFit profile uni \<and> calculateLanguageFit profile uni \<le> 95"
  by (simp add: calculateLanguageFit_def)

lemma visa_range: "20 \<le> calculateVisaFit profile uni \<and> calculateVisaFit profile uni \<le> 100"
  by (cases "visaDifficulty uni") (simp_all add: calculateVisaFit_def)

lemma workload_range:
  assumes "confidenceLevel profile = Some c" "1 \<le> workloadIntensity uni" "workloadIntensity uni \<le> 10"
  shows "\<exists>w. calculateWorkloadFit profile uni = Num w \<and> 0 \<le> w \<and> w \<le> 100"
  using assms by (cases c) (auto simp: calculateWorkloadFit_def Let_def)

lemma weightedSum_range:
  assumes "0 \<le> t" "t \<le> 100" "0 \<le> w" "w \<le> 100" "0 \<le> l" "l \<le> 100"
    "0 \<le> c" "c \<le> 100" "0 \<le> v" "v \<le> 100" "0 \<le> s" "s \<le> 100"
  shows "0 \<le> weightedSum t w l c v s \<and> weightedSum t w l c v s \<le> 100"
proof -
  have "0 \<le> real_of_int t" "real_of_int t \<le> 100" "0 \<le> real_of_int w" "real_of_int w \<le> 100" 
     "0 \<le> real_of_int l" "real_of_int l \<le> 100" "0 \<le> real_of_int c" "real_of_int c \<le> 100"
     "0 \<le> real_of_int v" "real_of_int v \<le> 100" "0 \<le> real_of_int s" "real_of_int s \<le> 100"
    using assms by simp_all
  then show ?thesis unfolding weightedSum_def power2_eq_square by linarith
qed

text \<open>
  C4. For every profile (one that has its budget level and its confidence level, as
  the type StudentProfile requires) and every university with workloadIntensity in
  [1,10] and internationalStudentSupport in [1,10], calculateFitScore returns an
  overall value that is an integer in [0,100]; each of the six breakdown dimensions
  (teaching, workload, language, cost, visa, support) is in [0,100]; and overall is
  round(0.2*teaching + 0.15*workload + 0.15*language + 0.25*cost + 0.15*visa +
  0.1*support) exactly, an integer at most a half away from that sum, the weights
  summing to 1.
\<close>

theorem calculateFitScore_range:
  assumes "budgetLevel profile = Some b" and "confidenceLevel profile = Some c"
    and "1 \<le> workloadIntensity uni" and "workloadIntensity uni \<le> 10"
    and "1 \<le> internationalStudentSupport uni" and "internationalStudentSupport uni \<le> 10"
  shows "\<exists>k t w l co v s.
           calculateFitScore profile uni =
             Inr \<lparr>overall = Num k,
                  breakdown = \<lparr>teaching = t, workload = Num w, language = l, cost = co,
                               visa = v, support = s\<rparr>\<rparr> \<and>
           0 \<le> k \<and> k \<le> 100 \<and>
           0 \<le> t \<and> t \<le> 100 \<and> 0 \<le> w \<and> w \<le> 100 \<and> 0 \<le> l \<and> l \<le> 100 \<and>
           0 \<le> co \<and> co \<le> 100 \<and> 0 \<le> v \<and> v \<le> 100 \<and> 0 \<le> s \<and> s \<le> 100 \<and>
           k = Math_round (0.2 * real_of_int t + 0.15 * real_of_int w + 0.15 * real_of_int l +
                           0.25 * real_of_int co + 0.15 * real_of_int v + 0.1 * real_of_int s) \<and>
           \<bar>real_of_int k -
             (0.2 * real_of_int t + 0.15 * real_of_int w + 0.15 * real_of_int l +
              0.25 * real_of_int co + 0.15 * real_of_int v + 0.1 * real_of_int s)\<bar> \<le> 1 / 2 \<and>
           (0.2 + 0.15 + 0.15 + 0.25 + 0.15 + 0.1 = (1 :: real))"
proof -
  define t where "t = calculateTeachingFit profile uni"
  define l where "l = calculateLanguageFit profile uni"
  define co where "co = budgetMap b (tier (tuition uni))"
  define v where "v = calculateVisaFit profile uni"
  define s where "s = internationalStudentSupport uni * 10"
  obtain w where w: "calculateWorkloadFit profile uni = Num w" "0 \<le> w" "w \<le> 100"
    using workload_range [OF assms(2,3,4)] by blast
  define k where "k = Math_round (weightedSum t w l co v s)"
  have t: "0 \<le> t" "t \<le> 100" using teaching_range [of profile uni] by (simp_all add: t_def)
  have l: "0 \<le> l" "l \<le> 100" using language_range [of profile uni] by (simp_all add: l_def)
  have co: "0 \<le> co" "co \<le> 100" using budgetMap_range [of b "tier (tuition uni)"] by (simp_all add: co_def)
  have v: "0 \<le> v" "v \<le> 100" using visa_range [of profile uni] by (simp_all add: v_def)
  have s: "0 \<le> s" "s \<le> 100" using assms(5,6) by (simp_all add: s_def)
  have sum: "0 \<le> weightedSum t w l co v s \<and> weightedSum t w l co v s \<le> 100"
    using t w(2,3) l co v s by (intro weightedSum_range)
  then have k: "0 \<le> k" "k \<le> 100"
    using Math_round_range unfolding k_def by blast+
  have eq: "calculateFitScore profile uni =
      Inr \<lparr>overall = Num k,
           breakdown = \<lparr>teaching = t, workload = Num w, language = l, cost = co,
                        visa = v, support = s\<rparr>\<rparr>"
    using assms(1) w(1)
    by (simp add: calculateFitScore_def calculateCostFit_def Let_def t_def l_def co_def v_def s_def k_def)
  have formula: "k = Math_round (0.2 * real_of_int t + 0.15 * real_of_int w + 0.15 * real_of_int l +
                           0.25 * real_of_int co + 0.15 * real_of_int v + 0.1 * real_of_int s)"
    unfolding k_def weightedSum_def by (simp add: mult.commute)
  have nearest: "\<bar>real_of_int k -
             (0.2 * real_of_int t + 0.15 * real_of_int w + 0.15 * real_of_int l +
              0.25 * real_of_int co + 0.15 * real_of_int v + 0.1 * real_of_int s)\<bar> \<le> 1 / 2"
    unfolding formula by (rule Math_round_nearest)
  have weights: "0.2 + 0.15 + 0.15 + 0.25 + 0.15 + 0.1 = (1 :: real)"
    by simp
  show ?thesis
    using eq k t w(2,3) l co v s formula nearest weights by blast
qed

text \<open>The confident student and the National University of Singapore: 89.75 rounds to 90.\<close>

theorem calculateFitScore_range_witness:
  "budgetLevel student = Some Medium \<and> confidenceLevel student = Some High \<and>
   1 \<le> workloadIntensity uniNUS \<and> workloadIntensity uniNUS \<le> 10 \<and>
   1 \<le> internationalStudentSupport uniNUS \<and> internationalStudentSupport uniNUS \<le> 10 \<and>
   calculateFitScore student uniNUS =
     Inr \<lparr>overall = Num 90,
          breakdown = \<lparr>teaching = 80, workload = Num 95, language = 95, cost = 85,
                       visa = 100, support = 90\<rparr>\<rparr> \<and>
   (90 :: int) = Math_round (0.2 * 80 + 0.15 * 95 + 0.15 * 95 + 0.25 * 85 + 0.15 * 100 + 0.1 * 90)"
proof -
  have h: "budgetLevel student = Some Medium" "confidenceLevel student = Some High"
    "1 \<le> workloadIntensity uniNUS" "workloadIntensity uniNUS \<le> 10"
    "1 \<le> internationalStudentSupport uniNUS" "internationalStudentSupport uniNUS \<le> 10"
    by (simp_all add: student_def uniNUS_def)
  obtain k t w l co v s where r:
    "calculateFitScore student uniNUS =
       Inr \<lparr>overall = Num k,
            breakdown = \<lparr>teaching = t, workload = Num w, language = l, cost = co,
                         visa = v, support = s\<rparr>\<rparr>"
    "k = Math_round (0.2 * real_of_int t + 0.15 * real_of_int w + 0.15 * real_of_int l +
                     0.25 * real_of_int co + 0.15 * real_of_int v + 0.1 * real_of_int s)"
    using calculateFitScore_range [OF h] by blast
  from r(1) have vals: "k = 90" "t = 80" "w = 95" "l = 95" "co = 85" "v = 100" "s = 90"
    by (simp_all add: fit_student_NUS)
  show ?thesis
    using h r(2) fit_student_NUS unfolding vals by simp
qed

subsection \<open>Financial risk\<close>

lemma severity_assessFinancialRisk: "severity (assessFinancialRisk catalog profile uni) =
    (if budgetTuitionMismatch profile uni \<or> highCostCountry catalog uni then High else Low)"
  by (simp add: assessFinancialRisk_def budgetTuitionMismatch_def highCostCountry_def Let_def)

lemma likelihood_assessFinancialRisk: "likelihood (assessFinancialRisk catalog profile uni) =
    (if budgetTuitionMismatch profile uni then 70 else 30)"
  by (simp add: assessFinancialRisk_def budgetTuitionMismatch_def Let_def)

text \<open>
  C8. The severity of the financial risk is "high" iff (budget low and tuition tier
  medium) or (budget medium and tuition tier high) or the country record of the
  university has the cost-of-living tier high, else "low"; the likelihood is 70 when
  the budget-tuition mismatch holds, else 30; and when the catalog has no Country
  record for the university's country, the evaluation takes the branch of a
  cost of living that is not high. assessFinancialRisk has no failing branch: it
  returns a risk entry for every catalog, profile and university, and that entry is
  the financial risk of every returned Path.
\<close>

theorem financial_risk:
  "severity (assessFinancialRisk catalog profile uni) =
     (if budgetTuitionMismatch profile uni \<or> highCostCountry catalog uni then High else Low) \<and>
   likelihood (assessFinancialRisk catalog profile uni) =
     (if budgetTuitionMismatch profile uni then 70 else 30) \<and>
   (find (\<lambda>c. name_C c = country_U uni) (COUNTRIES catalog) = None \<longrightarrow>
      \<not> highCostCountry catalog uni \<and>
      severity (assessFinancialRisk catalog profile uni) =
        (if budgetTuitionMismatch profile uni then High else Low)) \<and>
   (\<forall>paths. generatePaths catalog clock profile = Inr paths \<longrightarrow>
      (\<forall>path \<in> set paths.
         financial (risks path) = assessFinancialRisk catalog profile (details path)))"
proof -
  have "financial (risks path) = assessFinancialRisk catalog profile (details path)"
    if gp: "generatePaths catalog clock profile = Inr paths" "path \<in> set paths" for paths path
  proof -
    obtain now fs where "path = buildPath catalog now profile (details path) fs"
      using generatePaths_member [OF gp] by blast
    then have "risks path = assessRisks catalog profile (details path)"
      using risks_buildPath by metis
    then show ?thesis by (simp add: assessRisks_def)
  qed
  then have paths: "\<forall>paths. generatePaths catalog clock profile = Inr paths \<longrightarrow>
      (\<forall>path \<in> set paths.
         financial (risks path) = assessFinancialRisk catalog profile (details path))"
    by blast
  have missing: "find (\<lambda>c. name_C c = country_U uni) (COUNTRIES catalog) = None \<longrightarrow>
      \<not> highCostCountry catalog uni \<and>
      severity (assessFinancialRisk catalog profile uni) =
        (if budgetTuitionMismatch profile uni then High else Low)"
    by (simp add: severity_assessFinancialRisk highCostCountry_def)
  show ?thesis
    using severity_assessFinancialRisk [of catalog profile uni] likelihood_assessFinancialRisk [of catalog profile uni] missing paths
    by (intro conjI)
qed

text \<open>
  MIT has no country record in the example catalog and a mismatch with a medium
  budget; Singapore has a record with a high cost of living.
\<close>

theorem financial_risk_witness:
  "find (\<lambda>c. name_C c = country_U uniMIT) (COUNTRIES curated) = None \<and>
   budgetTuitionMismatch student uniMIT \<and>
   severity (assessFinancialRisk curated student uniMIT) = High \<and>
   likelihood (assessFinancialRisk curated student uniMIT) = 70 \<and>
   find (\<lambda>c. name_C c = country_U uniNUS) (COUNTRIES emptyCatalog) = None \<and>
   \<not> budgetTuitionMismatch student uniNUS \<and>
   severity (assessFinancialRisk emptyCatalog student uniNUS) = Low \<and>
   likelihood (assessFinancialRisk emptyCatalog student uniNUS) = 30 \<and>
   highCostCountry curated uniNUS \<and>
   severity (assessFinancialRisk curated student uniNUS) = High \<and>
   likelihood (assessFinancialRisk curated student uniNUS) = 30"
proof -
  have a: "find (\<lambda>c. name_C c = country_U uniMIT) (COUNTRIES curated) = None"
    by (simp add: curated_def uniMIT_def countryGermany_def countrySingapore_def)
  have b: "budgetTuitionMismatch student uniMIT"
    by (simp add: budgetTuitionMismatch_def student_def uniMIT_def)
  have c: "find (\<lambda>c. name_C c = country_U uniNUS) (COUNTRIES emptyCatalog) = None"
    by (simp add: emptyCatalog_def)
  have d: "\<not> budgetTuitionMismatch student uniNUS"
    by (simp add: budgetTuitionMismatch_def student_def uniNUS_def)
  have e: "highCostCountry curated uniNUS"
    by (simp add: highCostCountry_def curated_def uniNUS_def countryGermany_def countrySingapore_def)
  have 1: "severity (assessFinancialRisk curated student uniMIT) = High \<and>
      likelihood (assessFinancialRisk curated student uniMIT) = 70"
    using financial_risk [of curated student uniMIT epoch] a b by presburger
  have 2: "severity (assessFinancialRisk emptyCatalog student uniNUS) = Low \<and>
      likelihood (assessFinancialRisk emptyCatalog student uniNUS) = 30"
    using financial_risk [of emptyCatalog student uniNUS epoch] c d by presburger
  have 3: "severity (assessFinancialRisk curated student uniNUS) = High \<and>
      likelihood (assessFinancialRisk curated student uniNUS) = 30"
    using financial_risk [of curated student uniNUS epoch] d e by presburger
  show ?thesis
    using a b c d e 1 2 3 by blast
qed

subsection \<open>Scholarships\<close>

lemma matches_qualifies: "matches profile uni = qualifies profile uni"
  by (auto simp: matches_def qualifies_def fun_eq_iff)

lemma findMatchingScholarships_qualifies: "findMatchingScholarships catalog profile uni = take 3 (filter (qualifies profile uni) (SCHOLARSHIPS catalog))"
  by (simp add: findMatchingScholarships_def matches_qualifies)

text \<open>
  C9. For every profile and university, the scholarships attached are the first
  three, in catalog order, of those that qualify: whose country is the university's
  country, whose eligible-stage set contains the profile's education stage, and whose
  eligible-country list is empty or contains the profile's current country or
  contains "All". So at most 3 are attached, each attached one qualifies, and when
  at most 3 qualify a scholarship is attached iff it qualifies. Every returned Path
  carries the scholarships found for its candidate.
\<close>

theorem scholarship_matching:
  "findMatchingScholarships catalog profile uni =
     take 3 (filter (qualifies profile uni) (SCHOLARSHIPS catalog)) \<and>
   length (findMatchingScholarships catalog profile uni) \<le> 3 \<and>
   (\<forall>sch \<in> set (findMatchingScholarships catalog profile uni).
      sch \<in> set (SCHOLARSHIPS catalog) \<and> qualifies profile uni sch) \<and>
   (length (filter (qualifies profile uni) (SCHOLARSHIPS catalog)) \<le> 3 \<longrightarrow>
      set (findMatchingScholarships catalog profile uni) =
        {sch \<in> set (SCHOLARSHIPS catalog). qualifies profile uni sch}) \<and>
   (\<forall>paths. generatePaths catalog clock profile = Inr paths \<longrightarrow>
      (\<forall>path \<in> set paths.
         scholarships path = findMatchingScholarships catalog profile (details path)))"
proof -
  have "scholarships path = findMatchingScholarships catalog profile (details path)"
    if gp: "generatePaths catalog clock profile = Inr paths" "path \<in> set paths" for paths path
  proof -
    obtain now fs where "path = buildPath catalog now profile (details path) fs"
      using generatePaths_member [OF gp] by blast
    then show ?thesis
      using scholarships_buildPath by metis
  qed
  moreover have "sch \<in> set (SCHOLARSHIPS catalog) \<and> qualifies profile uni sch"
    if "sch \<in> set (findMatchingScholarships catalog profile uni)" for sch
  proof -
    have "sch \<in> set (filter (qualifies profile uni) (SCHOLARSHIPS catalog))"
      using that unfolding findMatchingScholarships_qualifies by (rule in_set_takeD)
    then show ?thesis by simp
  qed
  ultimately have paths: "\<forall>paths. generatePaths catalog clock profile = Inr paths \<longrightarrow>
      (\<forall>path \<in> set paths.
         scholarships path = findMatchingScholarships catalog profile (details path))"
    and member: "\<forall>sch \<in> set (findMatchingScholarships catalog profile uni).
      sch \<in> set (SCHOLARSHIPS catalog) \<and> qualifies profile uni sch"
    by blast+
  have len: "length (findMatchingScholarships catalog profile uni) \<le> 3"
    by (simp add: findMatchingScholarships_qualifies)
  have all: "length (filter (qualifies profile uni) (SCHOLARSHIPS catalog)) \<le> 3 \<longrightarrow>
      set (findMatchingScholarships catalog profile uni) =
        {sch \<in> set (SCHOLARSHIPS catalog). qualifies profile uni sch}"
    by (simp add: findMatchingScholarships_qualifies)
  show ?thesis
    using findMatchingScholarships_qualifies [of catalog profile uni] len member all paths
    by (intro conjI)
qed

text \<open>An Indian bachelor student: the German scholarship is open to all, the Singaporean is not.\<close>

theorem scholarship_matching_witness:
  "findMatchingScholarships curated student uniTUM = [schGermany] \<and>
   qualifies student uniTUM schGermany \<and> \<not> qualifies student uniTUM schSingapore \<and>
   findMatchingScholarships curated student uniNUS = [] \<and>
   length (filter (qualifies student uniTUM) (SCHOLARSHIPS curated)) \<le> 3 \<and>
   set (findMatchingScholarships curated student uniTUM) =
     {sch \<in> set (SCHOLARSHIPS curated). qualifies student uniTUM sch}"
proof -
  have q: "qualifies student uniTUM schGermany" "\<not> qualifies student uniTUM schSingapore"
    "\<not> qualifies student uniNUS schGermany" "\<not> qualifies student uniNUS schSingapore"
    by (simp_all add: qualifies_def student_def uniTUM_def uniNUS_def schGermany_def schSingapore_def)
  have s: "SCHOLARSHIPS curated = [schGermany, schSingapore]"
    by (simp add: curated_def)
  have f: "filter (qualifies student uniTUM) (SCHOLARSHIPS curated) = [schGermany]"
    "filter (qualifies student uniNUS) (SCHOLARSHIPS curated) = []"
    unfolding s using q by simp_all
  have 1: "findMatchingScholarships curated student uniTUM = [schGermany]"
    using scholarship_matching [of curated student uniTUM epoch] unfolding f(1) by simp
  have 2: "findMatchingScholarships curated student uniNUS = []"
    using scholarship_matching [of curated student uniNUS epoch] unfolding f(2) by simp
  have 3: "length (filter (qualifies student uniTUM) (SCHOLARSHIPS curated)) \<le> 3"
    unfolding f by simp
  have 4: "set (findMatchingScholarships curated student uniTUM) =
     {sch \<in> set (SCHOLARSHIPS curated). qualifies student uniTUM sch}"
    using scholarship_matching [of curated student uniTUM epoch] 3 by blast
  show ?thesis
    using q(1,2) 1 2 3 4 by blast
qed

subsection \<open>Number of paths\<close>

lemma count_list_map_filter:
  "count_list (map f xs) y = length (filter (\<lambda>x. y = f x) xs)"
  by (induction xs) auto

lemma count_list_map_distinct_subset:
  assumes "distinct rs" "set rs \<subseteq> set es" "distinct es"
  shows "count_list (map f rs) y \<le> count_list (map f es) y"
proof -
  have "length (filter (\<lambda>x. y = f x) rs) = card (set (filter (\<lambda>x. y = f x) rs))"
    using assms(1) by (intro distinct_card [symmetric] distinct_filter)
  also have "\<dots> \<le> card (set (filter (\<lambda>x. y = f x) es))"
    using assms(2) by (intro card_mono) auto
  also have "\<dots> = length (filter (\<lambda>x. y = f x) es)"
    using assms(3) by (intro distinct_card distinct_filter)
  finally show ?thesis
    by (simp add: count_list_map_filter)
qed

lemma count_list_selectDiversePaths:
  "count_list (map f (selectDiversePaths scored count)) y \<le> count_list (map f scored) y"
proof -
  let ?items = "enumerate 0 scored"
  let ?sel = "selectLoop count ?items [] {}"
  let ?res = "fillRemaining count ?items ?sel"
  have d: "distinct ?sel"
    by (rule selectLoop_distinct) (simp add: distinct_enumerate)
  then have "distinct ?res"
    by (rule fillRemaining_distinct)
  moreover have "set ?res \<subseteq> set ?items"
    using selectLoop_subset [of count ?items "[]" "{}"] fillRemaining_subset [of count ?items ?sel]
    by auto
  ultimately have "count_list (map (f \<circ> snd) ?res) y \<le> count_list (map (f \<circ> snd) ?items) y"
    using distinct_enumerate by (intro count_list_map_distinct_subset)
  moreover have "map (f \<circ> snd) ?items = map f scored"
    by (simp flip: map_map)
  ultimately show ?thesis
    by (simp add: selectDiversePaths_def Let_def)
qed

lemma count_list_insertByFit:
  "count_list (map f (insertByFit x ys)) y = count_list (map f (x # ys)) y"
  by (induction ys) auto

lemma count_list_sortByFit:
  "count_list (map f (sortByFit xs)) y = count_list (map f xs) y"
  unfolding sortByFit_def by (induction xs) (auto simp: count_list_insertByFit)

lemma generatePaths_count_list:
  assumes "generatePaths catalog clock profile = Inr paths"
  shows "count_list (map details paths) uni \<le>
         count_list (filterEligibleUniversities catalog profile) uni"
proof -
  obtain scored where s: "scoreUniversities profile (filterEligibleUniversities catalog profile) = Inr scored"
    and p: "paths = map (\<lambda>(k, item). buildPath catalog (clock k) profile (university item) (fitScore item))
                     (enumerate 0 (selectDiversePaths (sortByFit scored) 3))"
    using generatePaths_InrD [OF assms] by blast
  let ?sel = "selectDiversePaths (sortByFit scored) 3"
  have "map details paths = map university ?sel"
    unfolding p by (rule nth_equalityI) (simp_all add: nth_enumerate_eq details_buildPath)
  moreover have "count_list (map university ?sel) uni \<le> count_list (map university scored) uni"
    using count_list_selectDiversePaths [of university "sortByFit scored" 3 uni]
    by (simp add: count_list_sortByFit)
  ultimately show ?thesis
    using scoreUniversities_map [OF s] by simp
qed

text \<open>
  C7. For every catalog and every profile (one that has its budget level, as the type
  StudentProfile requires), generatePaths returns, without an exception, exactly
  min(3, number of eligible candidates) Paths, each built from an eligible
  candidate and no candidate used more often than it is eligible (no padding, no
  fabricated entry); and when no university is eligible, or the catalog is empty,
  it returns zero Paths and no exception, whatever the profile.
\<close>

theorem generatePaths_count:
  "(budgetLevel profile \<noteq> None \<or> filterEligibleUniversities catalog profile = [] \<longrightarrow>
      (\<exists>paths. generatePaths catalog clock profile = Inr paths \<and>
         length paths = min 3 (length (filterEligibleUniversities catalog profile)) \<and>
         (\<forall>path \<in> set paths. details path \<in> set (filterEligibleUniversities catalog profile)) \<and>
         (\<forall>uni. count_list (map details paths) uni \<le>
                  count_list (filterEligibleUniversities catalog profile) uni))) \<and>
   (filterEligibleUniversities catalog profile = [] \<longrightarrow>
      generatePaths catalog clock profile = Inr []) \<and>
   (UNIVERSITIES catalog = [] \<longrightarrow> generatePaths catalog clock profile = Inr [])"
proof -
  have ex: "\<exists>paths. generatePaths catalog clock profile = Inr paths"
    if "budgetLevel profile \<noteq> None \<or> filterEligibleUniversities catalog profile = []"
  proof (cases "generatePaths catalog clock profile")
    case (Inl e)
    then show ?thesis using generatePaths_InlD [OF Inl] that by blast
  next
    case (Inr paths)
    then show ?thesis by blast
  qed
  have all: "length paths = min 3 (length (filterEligibleUniversities catalog profile)) \<and>
         (\<forall>path \<in> set paths. details path \<in> set (filterEligibleUniversities catalog profile)) \<and>
         (\<forall>uni. count_list (map details paths) uni \<le>
                  count_list (filterEligibleUniversities catalog profile) uni)"
    if "generatePaths catalog clock profile = Inr paths" for paths
    using generatePaths_length [OF that] generatePaths_member [OF that]
      generatePaths_count_list [OF that] by blast
  have empty: "generatePaths catalog clock profile = Inr []"
    if "filterEligibleUniversities catalog profile = []"
    using that by (simp add: generatePaths_cases selectDiversePaths_length [of "[]" 3, simplified] sortByFit_def)
  have "filterEligibleUniversities catalog profile = []" if "UNIVERSITIES catalog = []"
    using that by (simp add: filterEligibleUniversities_def)
  then have none: "UNIVERSITIES catalog = [] \<longrightarrow> generatePaths catalog clock profile = Inr []"
    using empty by blast
  have some: "budgetLevel profile \<noteq> None \<or> filterEligibleUniversities catalog profile = [] \<longrightarrow>
      (\<exists>paths. generatePaths catalog clock profile = Inr paths \<and>
         length paths = min 3 (length (filterEligibleUniversities catalog profile)) \<and>
         (\<forall>path \<in> set paths. details path \<in> set (filterEligibleUniversities catalog profile)) \<and>
         (\<forall>uni. count_list (map details paths) uni \<le>
                  count_list (filterEligibleUniversities catalog profile) uni))"
    using ex all by blast
  have emptyImp: "filterEligibleUniversities catalog profile = [] \<longrightarrow>
      generatePaths catalog clock profile = Inr []"
    using empty by blast
  show ?thesis
    using some emptyImp none by (intro conjI)
qed

text \<open>Three eligible universities give three Paths, one gives one, none gives none.\<close>

theorem generatePaths_count_witness:
  "budgetLevel student \<noteq> None \<and>
   length (filterEligibleUniversities curated student) = 3 \<and>
   (\<exists>paths. generatePaths curated epoch student = Inr paths \<and> length paths = 3) \<and>
   length (filterEligibleUniversities curated cautious) = 1 \<and>
   (\<exists>paths. generatePaths curated epoch cautious = Inr paths \<and> length paths = 1) \<and>
   UNIVERSITIES emptyCatalog = [] \<and>
   generatePaths emptyCatalog epoch noBudget = Inr []"
proof -
  have b: "budgetLevel student \<noteq> None" "budgetLevel cautious \<noteq> None"
    by (simp_all add: student_def cautious_def)
  have e: "UNIVERSITIES emptyCatalog = []"
    by (simp add: emptyCatalog_def)
  have l: "length (filterEligibleUniversities curated student) = 3"
    "length (filterEligibleUniversities curated cautious) = 1"
    by (simp_all add: eligible_student eligible_cautious)
  have 1: "\<exists>paths. generatePaths curated epoch student = Inr paths \<and> length paths = 3"
    using generatePaths_count [of student curated epoch] b(1) unfolding l by auto
  have 2: "\<exists>paths. generatePaths curated epoch cautious = Inr paths \<and> length paths = 1"
    using generatePaths_count [of cautious curated epoch] b(2) unfolding l by auto
  have 3: "generatePaths emptyCatalog epoch noBudget = Inr []"
    using generatePaths_count [of noBudget emptyCatalog epoch] e by blast
  show ?thesis
    using b(1) e l 1 2 3 by blast
qed

subsection \<open>Diversity\<close>

lemma selectLoop_third:
  assumes "length selected = 2"
  shows "selectLoop 3 items selected seen =
     (case find (\<lambda>item. country_U (university (snd item)) \<notin> seen) items of
        None \<Rightarrow> selected
      | Some item \<Rightarrow> selected @ [item])"
  using assms
proof (induction items)
  case Nil
  then show ?case by simp
next
  case (Cons item rest)
  then show ?case by (simp add: selectLoop_full)
qed

lemma find_enumerate:
  "find (\<lambda>item. P (snd item)) (enumerate n xs) =
     (case find P xs of None \<Rightarrow> None | Some x \<Rightarrow> Some (n + length (takeWhile (\<lambda>x. \<not> P x) xs), x))"
proof (induction xs arbitrary: n)
  case Nil
  then show ?case by simp
next
  case (Cons x xs)
  then show ?case by (auto split: option.splits)
qed

lemma fillRemaining_full:
  "count \<le> length selected \<Longrightarrow> fillRemaining count scored selected = selected"
  by (subst fillRemaining.simps) simp

lemma enumerate_two:
  "enumerate 0 (a # b # xs) = (0, a) # (1, b) # enumerate 2 xs"
  by (simp add: numeral_2_eq_2)

lemma selectLoop_first_two:
  "selectLoop 3 (x # y # tail) [] {} =
     selectLoop 3 tail [x, y] {country_U (university (snd x)), country_U (university (snd y))}"
  by (simp add: insert_commute)

lemma remaining_tail:
  assumes "\<forall>item \<in> set tail. item \<noteq> x \<and> item \<noteq> y"
  shows "filter (\<lambda>item. item \<notin> set [x, y]) (x # y # tail) = tail"
proof -
  have "filter (\<lambda>item. item \<notin> set [x, y]) tail = tail"
    using assms by (auto simp: filter_id_conv)
  then show ?thesis by simp
qed

lemma selectDiversePaths_three:
  "selectDiversePaths (a # b # c # rest) 3 =
     [a, b, (case find (\<lambda>item. country_U (university item) \<notin>
                      {country_U (university a), country_U (university b)}) (c # rest) of
               None \<Rightarrow> c
             | Some item \<Rightarrow> item)]"
proof -
  let ?seen = "{country_U (university a), country_U (university b)}"
  let ?P = "\<lambda>item. country_U (university item) \<notin> ?seen"
  define xs where "xs = c # rest"
  define tail where "tail = enumerate 2 xs"
  define items where "items = enumerate 0 (a # b # xs)"
  have items: "items = (0, a) # (1, b) # tail"
    unfolding items_def tail_def by (rule enumerate_two)
  have loop: "selectLoop 3 items [] {} = selectLoop 3 tail [(0, a), (1, b)] ?seen"
    unfolding items by (simp only: selectLoop_first_two snd_conv)
  have goal: "selectDiversePaths (a # b # c # rest) 3 =
      map snd (fillRemaining 3 items (selectLoop 3 items [] {}))"
    by (simp only: selectDiversePaths_def Let_def items_def xs_def)
  show ?thesis
  proof (cases "find ?P xs")
    case None
    then have "find (\<lambda>item. ?P (snd item)) tail = None"
      unfolding tail_def using find_enumerate [of ?P 2 xs] by simp
    then have sel: "selectLoop 3 items [] {} = [(0, a), (1, b)]"
      unfolding loop by (simp add: selectLoop_third)
    have "\<forall>item \<in> set tail. item \<noteq> (0, a) \<and> item \<noteq> (1, b)"
      unfolding tail_def by (auto simp: in_set_enumerate_eq)
    then have rem: "filter (\<lambda>item. item \<notin> set [(0, a), (1, b)]) items = tail"
      unfolding items by (rule remaining_tail)
    have tl: "tail = (2, c) # enumerate 3 rest"
      unfolding tail_def xs_def by (simp add: eval_nat_numeral)
    have "fillRemaining 3 items [(0, a), (1, b)] = fillRemaining 3 items [(0, a), (1, b), (2, c)]"
      by (subst fillRemaining.simps) (simp add: rem, simp add: items tl)
    also have "\<dots> = [(0, a), (1, b), (2, c)]"
      by (simp add: fillRemaining_full)
    finally show ?thesis
      using None unfolding goal sel by (simp add: xs_def del: find.simps)
  next
    case (Some x)
    then have "find (\<lambda>item. ?P (snd item)) tail =
        Some (2 + length (takeWhile (\<lambda>x. \<not> ?P x) xs), x)"
      unfolding tail_def using find_enumerate [of ?P 2 xs] by simp
    then have sel: "selectLoop 3 items [] {} =
        [(0, a), (1, b), (2 + length (takeWhile (\<lambda>x. \<not> ?P x) xs), x)]"
      unfolding loop by (simp add: selectLoop_third)
    show ?thesis
      using Some unfolding goal sel by (simp add: fillRemaining_full xs_def del: find.simps)
  qed
qed

lemma compareFit_refl: "compareFit a a \<le> 0"
  by (simp add: compareFit_def split: number.splits)

lemma compareFit_Num:
  "overall (fitScore a) = Num m \<Longrightarrow> overall (fitScore b) = Num n \<Longrightarrow> compareFit a b = n - m"
  by (simp add: compareFit_def)

lemma sorted_insertByFit:
  assumes "\<forall>y \<in> set (x # ys). \<exists>n. overall (fitScore y) = Num n"
    and "sorted_wrt (\<lambda>a b. compareFit a b \<le> 0) ys"
  shows "sorted_wrt (\<lambda>a b. compareFit a b \<le> 0) (insertByFit x ys)"
  using assms
proof (induction ys)
  case Nil
  then show ?case by simp
next
  case (Cons y ys)
  obtain m n where mn: "overall (fitScore x) = Num m" "overall (fitScore y) = Num n"
    using Cons.prems(1) by auto
  show ?case
  proof (cases "compareFit x y \<le> 0")
    case True
    then have "n \<le> m" using mn by (simp add: compareFit_Num)
    have "compareFit x z \<le> 0" if z: "z \<in> set ys" for z
    proof -
      obtain k where k: "overall (fitScore z) = Num k" using Cons.prems(1) z by fastforce
      have "compareFit y z \<le> 0" using Cons.prems(2) z by simp
      then show ?thesis using mn k \<open>n \<le> m\<close> by (simp add: compareFit_Num)
    qed
    then show ?thesis using True Cons.prems(2) by auto
  next
    case False
    then have yx: "compareFit y x \<le> 0" using mn by (simp add: compareFit_Num)
    have "sorted_wrt (\<lambda>a b. compareFit a b \<le> 0) (insertByFit x ys)"
      using Cons by simp
    then show ?thesis
      using False yx Cons.prems(2) by (auto simp: set_insertByFit)
  qed
qed

lemma sorted_sortByFit:
  "\<forall>y \<in> set xs. \<exists>n. overall (fitScore y) = Num n \<Longrightarrow>
     sorted_wrt (\<lambda>a b. compareFit a b \<le> 0) (sortByFit xs)"
proof (induction xs)
  case Nil
  then show ?case by (simp add: sortByFit_def)
next
  case (Cons x xs)
  have "sorted_wrt (\<lambda>a b. compareFit a b \<le> 0) (insertByFit x (sortByFit xs))"
    using Cons by (intro sorted_insertByFit) (auto simp: set_sortByFit)
  then show ?case by (simp add: sortByFit_def)
qed

text \<open>
  C6. For every score-sorted candidate list of at least 3 entries whose universities
  span at least 2 distinct countries, the diversity selector with count 3 returns
  three entries that are not all from the same country; its first two selections
  are the first two entries of the list, whatever their countries, and these are
  the two highest-scored: by the comparator of the sort (the score of its second
  argument minus the score of its first), no entry scores above the first, and no
  entry but the first scores above the second.
\<close>

theorem diversity_selection:
  assumes "sorted_wrt (\<lambda>a b. compareFit a b \<le> 0) scored"
    and "3 \<le> length scored"
    and "\<exists>x \<in> set scored. \<exists>y \<in> set scored.
           country_U (university x) \<noteq> country_U (university y)"
  shows "\<exists>s1 s2 s3. selectDiversePaths scored 3 = [s1, s2, s3] \<and>
           \<not> (country_U (university s1) = country_U (university s2) \<and>
              country_U (university s2) = country_U (university s3)) \<and>
           s1 = scored ! 0 \<and> s2 = scored ! 1 \<and>
           (\<forall>x \<in> set scored. compareFit s1 x \<le> 0) \<and>
           (\<forall>x \<in> set (tl scored). compareFit s2 x \<le> 0)"
proof -
  obtain a b c rest where scored: "scored = a # b # c # rest"
    using assms(2) by (cases scored rule: list.exhaust; simp; rename_tac x xs; case_tac xs; simp; rename_tac y ys; case_tac ys; simp)
  let ?P = "\<lambda>item. country_U (university item) \<notin> {country_U (university a), country_U (university b)}"
  define t where "t = (case find ?P (c # rest) of None \<Rightarrow> c | Some item \<Rightarrow> item)"
  have sel: "selectDiversePaths scored 3 = [a, b, t]"
    unfolding scored t_def by (rule selectDiversePaths_three)
  have div: "\<not> (country_U (university a) = country_U (university b) \<and>
              country_U (university b) = country_U (university t))"
  proof
    assume same: "country_U (university a) = country_U (university b) \<and>
              country_U (university b) = country_U (university t)"
    from assms(3) obtain x where x: "x \<in> set scored" "country_U (university x) \<noteq> country_U (university a)"
      by metis
    then have "x \<in> set (c # rest)" "?P x"
      using same unfolding scored by auto
    then have "find ?P (c # rest) \<noteq> None"
      by (simp only: find_None_iff) blast
    then obtain item where f: "find ?P (c # rest) = Some item" by blast
    then have "?P item" by (metis (mono_tags, lifting) find_Some_iff)
    moreover have "t = item" unfolding t_def by (simp only: f option.case)
    ultimately show False using same by simp
  qed
  have top1: "\<forall>x \<in> set scored. compareFit a x \<le> 0"
    using assms(1) unfolding scored by (auto simp: compareFit_refl)
  have top2: "\<forall>x \<in> set (tl scored). compareFit b x \<le> 0"
    using assms(1) unfolding scored by (auto simp: compareFit_refl)
  show ?thesis
    using sel div top1 top2 by (simp add: scored)
qed

lemma ranked_sorted: "sorted_wrt (\<lambda>a b. compareFit a b \<le> 0) ranked"
  by (simp add: ranked_def scoredAt_def compareFit_def)

lemma ranked_countries:
  "country_U (university (ranked ! 0)) = ''United States''"
  "country_U (university (ranked ! 1)) = ''United States''"
  "country_U (university (ranked ! 2)) = ''United States''"
  "country_U (university (ranked ! 3)) = ''Germany''"
  by (simp_all add: ranked_def scoredAt_def uniMIT_def uniTUM_def)

lemma ranked_select: "selectDiversePaths ranked 3 = [ranked ! 0, ranked ! 1, ranked ! 3]"
  unfolding ranked_def
  by (simp add: selectDiversePaths_three scoredAt_def uniMIT_def uniTUM_def)

text \<open>
  Three candidates in the United States ahead of one in Germany: the third pick is
  the German one.
\<close>

theorem diversity_selection_witness:
  "sorted_wrt (\<lambda>a b. compareFit a b \<le> 0) ranked \<and> 3 \<le> length ranked \<and>
   (\<exists>x \<in> set ranked. \<exists>y \<in> set ranked. country_U (university x) \<noteq> country_U (university y)) \<and>
   selectDiversePaths ranked 3 = [ranked ! 0, ranked ! 1, ranked ! 3] \<and>
   country_U (university (ranked ! 0)) = ''United States'' \<and>
   country_U (university (ranked ! 1)) = ''United States'' \<and>
   country_U (university (ranked ! 2)) = ''United States'' \<and>
   country_U (university (ranked ! 3)) = ''Germany''"
proof -
  have l: "3 \<le> length ranked" and l4: "length ranked = 4"
    by (simp_all add: ranked_def)
  have "ranked ! 0 \<in> set ranked" "ranked ! 3 \<in> set ranked"
    using l4 by simp_all
  moreover have "country_U (university (ranked ! 0)) \<noteq> country_U (university (ranked ! 3))"
    by (simp add: ranked_countries)
  ultimately have c: "\<exists>x \<in> set ranked. \<exists>y \<in> set ranked.
      country_U (university x) \<noteq> country_U (university y)"
    by blast
  obtain s1 s2 s3 where "selectDiversePaths ranked 3 = [s1, s2, s3]"
    "\<not> (country_U (university s1) = country_U (university s2) \<and>
        country_U (university s2) = country_U (university s3))"
    using diversity_selection [OF ranked_sorted l c] by blast
  then show ?thesis
    using ranked_sorted l c ranked_select ranked_countries by blast
qed

subsection \<open>Determinism\<close>

lemma shiftDates_buildPath:
  "shiftDates d (buildPath catalog now profile uni fs) = buildPath catalog (now + d) profile uni fs"
  by (simp add: shiftDates_def buildPath_def generateTimeline_def)

lemma map_enumerate_map:
  "map (\<lambda>(k, y). g k y) (enumerate n (map (\<lambda>(k, x). f k x) (enumerate n xs))) =
     map (\<lambda>(k, x). g k (f k x)) (enumerate n xs)"
  by (induction xs arbitrary: n) auto

lemma generatePaths_clock:
  "generatePaths catalog clock profile =
     map_sum id (\<lambda>paths. map (\<lambda>(k, path). shiftDates (clock k) path) (enumerate 0 paths))
       (generatePaths catalog (\<lambda>k. 0) profile)"
  unfolding generatePaths_cases
  by (simp add: map_enumerate_map shiftDates_buildPath split: sum.splits)

lemma dates_buildPath:
  "map date (timeline (buildPath catalog now profile uni fs)) =
     [now + 15552000000, now + 23328000000, now + 31536000000]"
  by (simp add: buildPath_def generateTimeline_def)

lemma generatePaths_dates:
  assumes "generatePaths catalog clock profile = Inr paths" "k < length paths"
  shows "map date (timeline (paths ! k)) =
     [clock k + 15552000000, clock k + 23328000000, clock k + 31536000000]"
  using generatePaths_nth [OF assms] by (metis dates_buildPath)

text \<open>
  C1, as stated: for a fixed (profile, catalog) pair two runs of generatePaths
  produce identical output, with no dependence on the current time. They do not:
  generateTimeline reads the clock, and a run one millisecond later returns other
  dates.
\<close>

theorem clock_dependence_counterexample:
  "generatePaths curated epoch student \<noteq> generatePaths curated later student"
proof
  assume eq: "generatePaths curated epoch student = generatePaths curated later student"
  have b: "budgetLevel student = Some Medium"
    by (simp add: student_def)
  obtain paths where p: "generatePaths curated epoch student = Inr paths"
    using generatePaths_Inr [OF b] by blast
  have "length paths = 3"
    using generatePaths_length [OF p] by (simp add: eligible_student)
  then have k: "0 < length paths" by simp
  have "map date (timeline (paths ! 0)) =
      [epoch 0 + 15552000000, epoch 0 + 23328000000, epoch 0 + 31536000000]"
    using generatePaths_dates [OF p k] .
  moreover have "map date (timeline (paths ! 0)) =
      [later 0 + 15552000000, later 0 + 23328000000, later 0 + 31536000000]"
    using generatePaths_dates [OF p [unfolded eq] k] .
  ultimately show False
    by (simp add: epoch_def later_def)
qed

text \<open>
  C1, amended: generatePaths is a function of the profile, the catalog and the clock
  readings of the run, and depends on the clock only in the dates of the timelines:
  its output is the output of a run at the epoch with the dates of the \<open>k\<close>-th Path
  moved by the \<open>k\<close>-th reading, and the three dates of the \<open>k\<close>-th Path are that
  reading plus 180, 270 and 365 days.
\<close>

theorem clock_dependence:
  "generatePaths catalog clock profile =
     map_sum id (\<lambda>paths. map (\<lambda>(k, path). shiftDates (clock k) path) (enumerate 0 paths))
       (generatePaths catalog (\<lambda>k. 0) profile) \<and>
   (\<forall>paths k. generatePaths catalog clock profile = Inr paths \<and> k < length paths \<longrightarrow>
      map date (timeline (paths ! k)) =
        [clock k + 180 * 24 * 60 * 60 * 1000,
         clock k + 270 * 24 * 60 * 60 * 1000,
         clock k + 365 * 24 * 60 * 60 * 1000])"
proof -
  have "map date (timeline (paths ! k)) =
        [clock k + 180 * 24 * 60 * 60 * 1000,
         clock k + 270 * 24 * 60 * 60 * 1000,
         clock k + 365 * 24 * 60 * 60 * 1000]"
    if gp: "generatePaths catalog clock profile = Inr paths" "k < length paths" for paths k
    using generatePaths_dates [OF gp] by simp
  then have dates: "\<forall>paths k. generatePaths catalog clock profile = Inr paths \<and> k < length paths \<longrightarrow>
      map date (timeline (paths ! k)) =
        [clock k + 180 * 24 * 60 * 60 * 1000,
         clock k + 270 * 24 * 60 * 60 * 1000,
         clock k + 365 * 24 * 60 * 60 * 1000]"
    by blast
  show ?thesis
    using generatePaths_clock [of catalog clock profile] dates by (intro conjI)
qed

text \<open>A run at one millisecond after the epoch.\<close>

theorem clock_dependence_witness:
  "\<exists>paths. generatePaths curated later student = Inr paths \<and> 0 < length paths \<and>
      map date (timeline (paths ! 0)) = [15552000001, 23328000001, 31536000001] \<and>
      generatePaths curated later student =
        map_sum id (\<lambda>paths. map (\<lambda>(k, path). shiftDates (later k) path) (enumerate 0 paths))
          (generatePaths curated (\<lambda>k. 0) student)"
proof -
  have b: "budgetLevel student = Some Medium"
    by (simp add: student_def)
  obtain paths where p: "generatePaths curated later student = Inr paths"
    using generatePaths_Inr [OF b] by blast
  have "length paths = 3"
    using generatePaths_length [OF p] by (simp add: eligible_student)
  then have k: "0 < length paths" by simp
  have "map date (timeline (paths ! 0)) =
        [later 0 + 180 * 24 * 60 * 60 * 1000,
         later 0 + 270 * 24 * 60 * 60 * 1000,
         later 0 + 365 * 24 * 60 * 60 * 1000]"
    using clock_dependence [of curated later student, THEN conjunct2, rule_format, of paths 0] p k
    by simp
  then have d: "map date (timeline (paths ! 0)) = [15552000001, 23328000001, 31536000001]"
    by (simp add: later_def)
  have "generatePaths curated later student =
        map_sum id (\<lambda>paths. map (\<lambda>(k, path). shiftDates (later k) path) (enumerate 0 paths))
          (generatePaths curated (\<lambda>k. 0) student)"
    using clock_dependence [of curated later student, THEN conjunct1] .
  then show ?thesis
    using p k d by (intro exI [of _ paths] conjI)
qed

subsection \<open>Profiles with a missing field\<close>

lemma eligible_fear:
  assumes "m \<noteq> Some Visa" "m' \<noteq> Some Visa"
  shows "eligible (profile\<lparr>mainFear := m\<rparr>) uni = eligible (profile\<lparr>mainFear := m'\<rparr>) uni"
  using assms by (simp add: eligible_def)

lemma calculateFitScore_fear:
  assumes "m \<noteq> Some Visa" "m' \<noteq> Some Visa"
  shows "calculateFitScore (profile\<lparr>mainFear := m\<rparr>) uni =
         calculateFitScore (profile\<lparr>mainFear := m'\<rparr>) uni"
  using assms
  by (simp add: calculateFitScore_def calculateCostFit_def calculateTeachingFit_def
      calculateWorkloadFit_def calculateLanguageFit_def calculateVisaFit_def
      split: option.splits)

lemma scoreUniversities_fear:
  assumes "m \<noteq> Some Visa" "m' \<noteq> Some Visa"
  shows "scoreUniversities (profile\<lparr>mainFear := m\<rparr>) us =
         scoreUniversities (profile\<lparr>mainFear := m'\<rparr>) us"
  by (induction us) (simp_all add: calculateFitScore_fear [OF assms] split: sum.splits)

lemma assessRisks_fear:
  "assessRisks catalog (profile\<lparr>mainFear := m\<rparr>) uni =
   assessRisks catalog (profile\<lparr>mainFear := m'\<rparr>) uni"
  by (simp add: assessRisks_def assessFinancialRisk_def assessVisaRisk_def
      assessAcademicRisk_def assessTimeRisk_def Let_def)

lemma findMatchingScholarships_fear:
  "findMatchingScholarships catalog (profile\<lparr>mainFear := m\<rparr>) uni =
   findMatchingScholarships catalog (profile\<lparr>mainFear := m'\<rparr>) uni"
proof -
  have "matches (profile\<lparr>mainFear := m\<rparr>) uni = matches (profile\<lparr>mainFear := m'\<rparr>) uni"
    by (simp add: fun_eq_iff matches_def)
  then show ?thesis
    by (simp add: findMatchingScholarships_def)
qed

lemma buildPath_fear:
  "buildPath catalog now (profile\<lparr>mainFear := m\<rparr>) uni fs =
   buildPath catalog now (profile\<lparr>mainFear := m'\<rparr>) uni fs"
  unfolding buildPath_def
  by (simp add: assessRisks_fear [where m = m and m' = m']
      findMatchingScholarships_fear [where m = m and m' = m']
      generateExclusions_def generateTimeline_def)

lemma generatePaths_fear:
  assumes "m \<noteq> Some Visa" "m' \<noteq> Some Visa"
  shows "generatePaths catalog clock (profile\<lparr>mainFear := m\<rparr>) =
         generatePaths catalog clock (profile\<lparr>mainFear := m'\<rparr>)"
proof -
  have f: "filterEligibleUniversities catalog (profile\<lparr>mainFear := m\<rparr>) =
        filterEligibleUniversities catalog (profile\<lparr>mainFear := m'\<rparr>)"
    unfolding filterEligibleUniversities_def
    by (rule filter_cong [OF refl]) (rule eligible_fear [OF assms])
  have s: "scoreUniversities (profile\<lparr>mainFear := m\<rparr>) us =
        scoreUniversities (profile\<lparr>mainFear := m'\<rparr>) us" for us
    by (rule scoreUniversities_fear [OF assms])
  have b: "buildPath catalog now (profile\<lparr>mainFear := m\<rparr>) =
        buildPath catalog now (profile\<lparr>mainFear := m'\<rparr>)" for now
    by (intro ext) (rule buildPath_fear)
  show ?thesis
    unfolding generatePaths_cases f s b ..
qed

lemma scoreUniversities_TypeError:
  "budgetLevel profile = None \<Longrightarrow> us \<noteq> [] \<Longrightarrow> scoreUniversities profile us = Inl TypeError"
  by (cases us) (simp_all add: calculateFitScore_def calculateCostFit_def)

lemma generatePaths_TypeError:
  "budgetLevel profile = None \<Longrightarrow> filterEligibleUniversities catalog profile \<noteq> [] \<Longrightarrow>
     generatePaths catalog clock profile = Inl TypeError"
  unfolding generatePaths_cases by (simp add: scoreUniversities_TypeError)

lemma generatePaths_not_isl:
  "budgetLevel profile \<noteq> None \<Longrightarrow> \<not> isl (generatePaths catalog clock profile)"
  using generatePaths_Inr [of profile _ catalog clock] by auto

text \<open>
  C3, as stated: a profile without budget level, main fear or confidence level is
  rejected before filtering, with an error value. It is not: without a main fear or
  without a confidence level the engine returns Paths, and without a budget level it
  returns the empty list when no university is eligible.
\<close>

theorem profile_validation_counterexample:
  "mainFear noFear = None \<and> \<not> isl (generatePaths curated epoch noFear) \<and>
   confidenceLevel noConfidence = None \<and> \<not> isl (generatePaths curated epoch noConfidence) \<and>
   budgetLevel noBudget = None \<and> generatePaths emptyCatalog epoch noBudget = Inr []"
proof -
  have "budgetLevel noFear \<noteq> None" "budgetLevel noConfidence \<noteq> None"
    by (simp_all add: noFear_def noConfidence_def student_def)
  then have "\<not> isl (generatePaths curated epoch noFear)"
    "\<not> isl (generatePaths curated epoch noConfidence)"
    by (simp_all add: generatePaths_not_isl)
  moreover have "generatePaths emptyCatalog epoch noBudget = Inr []"
    by (simp add: generatePaths_cases filterEligibleUniversities_def emptyCatalog_def
        sortByFit_def selectDiversePaths_length [of "[]" 3, simplified])
  moreover have "mainFear noFear = None" "confidenceLevel noConfidence = None"
    "budgetLevel noBudget = None"
    by (simp_all add: noFear_def noConfidence_def noBudget_def)
  ultimately show ?thesis by (intro conjI)
qed

text \<open>
  C3, amended: generatePaths does not validate the profile (the type StudentProfile
  declares the three fields as required, and nothing checks them at run time). A
  profile with a budget level is never answered with an error, also when its main
  fear or its confidence level is missing; an error can only come from a missing
  budget level, and only after the filter has found an eligible university; and a
  profile without a main fear gets the Paths of a profile with any fear but visa.
\<close>

theorem profile_not_validated:
  "(budgetLevel profile \<noteq> None \<longrightarrow> \<not> isl (generatePaths catalog clock profile)) \<and>
   (isl (generatePaths catalog clock profile) \<longrightarrow>
      budgetLevel profile = None \<and> filterEligibleUniversities catalog profile \<noteq> []) \<and>
   (fear \<noteq> Visa \<longrightarrow>
      generatePaths catalog clock (profile\<lparr>mainFear := None\<rparr>) =
      generatePaths catalog clock (profile\<lparr>mainFear := Some fear\<rparr>))"
proof -
  have 1: "budgetLevel profile \<noteq> None \<longrightarrow> \<not> isl (generatePaths catalog clock profile)"
    using generatePaths_not_isl by blast
  have 2: "isl (generatePaths catalog clock profile) \<longrightarrow>
      budgetLevel profile = None \<and> filterEligibleUniversities catalog profile \<noteq> []"
    using generatePaths_InlD [of catalog clock profile]
    by (cases "generatePaths catalog clock profile") auto
  have 3: "fear \<noteq> Visa \<longrightarrow>
      generatePaths catalog clock (profile\<lparr>mainFear := None\<rparr>) =
      generatePaths catalog clock (profile\<lparr>mainFear := Some fear\<rparr>)"
    using generatePaths_fear [of None "Some fear"] by simp
  show ?thesis using 1 2 3 by (intro conjI)
qed

text \<open>The student without a main fear, and without a budget level.\<close>

theorem profile_not_validated_witness:
  "budgetLevel noFear \<noteq> None \<and> mainFear noFear = None \<and>
   \<not> isl (generatePaths curated epoch noFear) \<and>
   Money \<noteq> Visa \<and>
   generatePaths curated epoch (student\<lparr>mainFear := None\<rparr>) =
     generatePaths curated epoch (student\<lparr>mainFear := Some Money\<rparr>) \<and>
   isl (generatePaths curated epoch noBudget) \<and>
   budgetLevel noBudget = None \<and> filterEligibleUniversities curated noBudget \<noteq> []"
proof -
  have a: "budgetLevel noFear \<noteq> None" "mainFear noFear = None"
    by (simp_all add: noFear_def student_def)
  have b: "\<not> isl (generatePaths curated epoch noFear)"
    using profile_not_validated [of noFear curated epoch, THEN conjunct1] a(1) by simp
  have c: "generatePaths curated epoch (student\<lparr>mainFear := None\<rparr>) =
     generatePaths curated epoch (student\<lparr>mainFear := Some Money\<rparr>)"
    using profile_not_validated [of student curated epoch Money, THEN conjunct2, THEN conjunct2]
    by simp
  have d: "budgetLevel noBudget = None"
    by (simp add: noBudget_def)
  have e: "filterEligibleUniversities curated noBudget \<noteq> []"
    by (simp add: filterEligibleUniversities_def eligible_def curated_def noBudget_def student_def
        uniMIT_def)
  have f: "isl (generatePaths curated epoch noBudget)"
    using generatePaths_TypeError [OF d e, of epoch] by simp
  have "Money \<noteq> Visa" by simp
  then show ?thesis using a b c d e f by (intro conjI)
qed

subsection \<open>The example of the specification\<close>

text \<open>
  The cautious student bound for Germany, against the curated catalog, at the epoch:
  the filter keeps the Technical University of Munich only, its cost fit is 100, and
  the output is one Path.
\<close>

lemma fit_cautious_TUM:
  "calculateFitScore cautious uniTUM =
     Inr \<lparr>overall = Num 82,
          breakdown = \<lparr>teaching = 70, workload = Num 55, language = 80, cost = 100,
                       visa = 100, support = 80\<rparr>\<rparr>"
  by (simp add: calculateFitScore_def calculateCostFit_def calculateTeachingFit_def
      calculateWorkloadFit_def calculateLanguageFit_def calculateVisaFit_def weightedSum_def
      alternativesInclude_def Math_round_def cautious_def uniTUM_def)

lemma selectDiversePaths_one: "selectDiversePaths [x] 3 = [x]"
proof -
  have "fillRemaining 3 [(0, x)] [(0, x)] = [(0, x)]"
    by (subst fillRemaining.simps) simp
  then show ?thesis
    by (simp add: selectDiversePaths_def)
qed

lemma numberToString_8: "numberToString 8 = ''8''"
  by (simp add: numberToString_def digitsOf.simps digitChar_def)

lemma path_cautious:
  "generatePaths curated epoch cautious =
     Inr [\<lparr>id_Path = ''path-uni-tum'',
           type_Path = UniversityPath,
           name_Path = ''Study at Technical University of Munich'',
           description_Path = ''Top-ranked research-focused university in Munich, Germany'',
           fitScore_Path =
             \<lparr>overall = Num 82,
              breakdown = \<lparr>teaching = 70, workload = Num 55, language = 80, cost = 100,
                           visa = 100, support = 80\<rparr>\<rparr>,
           risks =
             \<lparr>financial =
                \<lparr>severity = Low, likelihood = 30,
                 description_R = ''Costs are manageable with low budget'',
                 mitigation =
                   [''Apply for scholarships'', ''Look for part-time work opportunities'',
                    ''Consider student loans'', ''Budget carefully for living expenses'']\<rparr>,
              visa_R =
                \<lparr>severity = Low, likelihood = 10,
                 description_R = ''Visa difficulty is easy for Germany'',
                 mitigation =
                   [''Start visa process early'', ''Prepare all documents thoroughly'',
                    ''Seek visa consultation'', ''Have backup country options'']\<rparr>,
              academic =
                \<lparr>severity = High, likelihood = 60,
                 description_R =
                   ''Workload intensity (8/10) may be challenging for your low confidence level'',
                 mitigation =
                   [''Start with lighter course load'', ''Use university tutoring services'',
                    ''Form study groups'', ''Manage time effectively'']\<rparr>,
              time =
                \<lparr>severity = Medium, likelihood = 40,
                 description_R = ''Potential delays in graduation or visa processing'',
                 mitigation =
                   [''Plan for buffer time'', ''Stay on top of deadlines'',
                    ''Have contingency plans'']\<rparr>\<rparr>,
           notForYouIf = [''you need a safer acceptance option''],
           details = uniTUM,
           scholarships = [schGermany],
           timeline =
             [\<lparr>id_Ev = ''evt-1'', date = 15552000000, title = ''Application Deadline'',
               description_Ev = ''Submit application to Technical University of Munich'',
               type_Ev = Deadline, importance = High, completed = None\<rparr>,
              \<lparr>id_Ev = ''evt-2'', date = 23328000000, title = ''Visa Application'',
               description_Ev = ''Apply for student visa'',
               type_Ev = Decision, importance = High, completed = None\<rparr>,
              \<lparr>id_Ev = ''evt-3'', date = 31536000000, title = ''Program Starts'',
               description_Ev = ''Begin studies'',
               type_Ev = Milestone, importance = High, completed = None\<rparr>]\<rparr>]"
proof -
  have score: "scoreUniversities cautious [uniTUM] =
      Inr [\<lparr>university = uniTUM,
            fitScore = \<lparr>overall = Num 82,
              breakdown = \<lparr>teaching = 70, workload = Num 55, language = 80, cost = 100,
                           visa = 100, support = 80\<rparr>\<rparr>\<rparr>]"
    by (simp add: fit_cautious_TUM)
  have risks: "assessRisks curated cautious uniTUM =
             \<lparr>financial =
                \<lparr>severity = Low, likelihood = 30,
                 description_R = ''Costs are manageable with low budget'',
                 mitigation =
                   [''Apply for scholarships'', ''Look for part-time work opportunities'',
                    ''Consider student loans'', ''Budget carefully for living expenses'']\<rparr>,
              visa_R =
                \<lparr>severity = Low, likelihood = 10,
                 description_R = ''Visa difficulty is easy for Germany'',
                 mitigation =
                   [''Start visa process early'', ''Prepare all documents thoroughly'',
                    ''Seek visa consultation'', ''Have backup country options'']\<rparr>,
              academic =
                \<lparr>severity = High, likelihood = 60,
                 description_R =
                   ''Workload intensity (8/10) may be challenging for your low confidence level'',
                 mitigation =
                   [''Start with lighter course load'', ''Use university tutoring services'',
                    ''Form study groups'', ''Manage time effectively'']\<rparr>,
              time =
                \<lparr>severity = Medium, likelihood = 40,
                 description_R = ''Potential delays in graduation or visa processing'',
                 mitigation =
                   [''Plan for buffer time'', ''Stay on top of deadlines'',
                    ''Have contingency plans'']\<rparr>\<rparr>"
    by (simp add: assessRisks_def assessFinancialRisk_def assessVisaRisk_def
        assessAcademicRisk_def assessTimeRisk_def numberToString_8
        curated_def cautious_def uniTUM_def countryGermany_def countrySingapore_def)
  have excl: "generateExclusions cautious uniTUM = [''you need a safer acceptance option'']"
    by (simp add: generateExclusions_def alternativesInclude_def uniTUM_def)
  have sch: "findMatchingScholarships curated cautious uniTUM = [schGermany]"
    by (simp add: findMatchingScholarships_def matches_def curated_def cautious_def
        uniTUM_def schGermany_def schSingapore_def)
  have tl: "generateTimeline 0 cautious uniTUM =
             [\<lparr>id_Ev = ''evt-1'', date = 15552000000, title = ''Application Deadline'',
               description_Ev = ''Submit application to Technical University of Munich'',
               type_Ev = Deadline, importance = High, completed = None\<rparr>,
              \<lparr>id_Ev = ''evt-2'', date = 23328000000, title = ''Visa Application'',
               description_Ev = ''Apply for student visa'',
               type_Ev = Decision, importance = High, completed = None\<rparr>,
              \<lparr>id_Ev = ''evt-3'', date = 31536000000, title = ''Program Starts'',
               description_Ev = ''Begin studies'',
               type_Ev = Milestone, importance = High, completed = None\<rparr>]"
    by (simp add: generateTimeline_def uniTUM_def)
  have strs: "id_U uniTUM = ''uni-tum''" "name_U uniTUM = ''Technical University of Munich''"
    "ranking uniTUM = 37" "teachingStyle uniTUM = ResearchFocused" "city uniTUM = ''Munich''"
    "country_U uniTUM = ''Germany''"
    by (simp_all add: uniTUM_def)
  show ?thesis
    unfolding generatePaths_cases eligible_cautious score
    by (simp add: sortByFit_def selectDiversePaths_one buildPath_def risks excl sch tl strs epoch_def)
qed

end
